theory Spec2Isabelle
  imports Main "HOL-Library.Sublist"
begin

section \<open>Python values and exceptions\<close>

text \<open>
  \<^verbatim>\<open>ffmpeg.probe\<close> returns what \<^verbatim>\<open>json.loads\<close> built from the output of ffprobe: a
  value made of \<^verbatim>\<open>None\<close>, booleans, integers, floats, strings, lists and dicts with string
  keys. A float is identified by its \<^verbatim>\<open>repr\<close>; a dict is the list of its items in insertion
  order, read through its first entry for a key. A string is the list of its characters.
\<close>

datatype pyval =
    PyNone
  | PyBool bool
  | PyInt int
  | PyFloat string
  | PyStr string
  | PyList "pyval list"
  | PyDict "(string \<times> pyval) list"

datatype error =
    KeyError pyval
  | IndexError
  | TypeError
  | AttributeError
  | ValueError
  | ZeroDivisionError
  | AssertionError string
  | FfmpegError "string option"
  | Cv2Error string
  | OSError string

text \<open>Sequencing of two steps, the first of which may raise.\<close>

definition and_then :: "error + 'a \<Rightarrow> ('a \<Rightarrow> error + 'b) \<Rightarrow> error + 'b" where
  "and_then m f = (case m of Inl e \<Rightarrow> Inl e | Inr x \<Rightarrow> f x)"

text \<open>\<^verbatim>\<open>obj[key]\<close> for a string key: only a dict accepts one.\<close>

definition getitem :: "pyval \<Rightarrow> string \<Rightarrow> error + pyval" where
  "getitem obj k =
     (case obj of
        PyDict d \<Rightarrow> (case map_of d k of None \<Rightarrow> Inl (KeyError (PyStr k)) | Some v \<Rightarrow> Inr v)
      | _ \<Rightarrow> Inl TypeError)"

text \<open>\<^verbatim>\<open>obj[0]\<close>: the first element of a list, the first character of a string;
  a dict with string keys has no key \<^verbatim>\<open>0\<close>.\<close>

definition getitem0 :: "pyval \<Rightarrow> error + pyval" where
  "getitem0 obj =
     (case obj of
        PyList xs \<Rightarrow> (case xs of [] \<Rightarrow> Inl IndexError | x # _ \<Rightarrow> Inr x)
      | PyStr s \<Rightarrow> (case s of [] \<Rightarrow> Inl IndexError | c # _ \<Rightarrow> Inr (PyStr [c]))
      | PyDict d \<Rightarrow> Inl (KeyError (PyInt 0))
      | _ \<Rightarrow> Inl TypeError)"

text \<open>\<^verbatim>\<open>key in obj\<close> for a string key: a key of a dict, an element of a list, a
  substring of a string.\<close>

definition contains :: "string \<Rightarrow> pyval \<Rightarrow> error + bool" where
  "contains k obj =
     (case obj of
        PyDict d \<Rightarrow> Inr (k \<in> set (map fst d))
      | PyList xs \<Rightarrow> Inr (PyStr k \<in> set xs)
      | PyStr s \<Rightarrow> Inr (sublist k s)
      | _ \<Rightarrow> Inl TypeError)"

text \<open>\<^verbatim>\<open>for x in obj\<close>: the elements of a list, the keys of a dict, the characters of a
  string.\<close>

definition iterate :: "pyval \<Rightarrow> error + pyval list" where
  "iterate obj =
     (case obj of
        PyList xs \<Rightarrow> Inr xs
      | PyDict d \<Rightarrow> Inr (map (\<lambda>kv. PyStr (fst kv)) d)
      | PyStr s \<Rightarrow> Inr (map (\<lambda>c. PyStr [c]) s)
      | _ \<Rightarrow> Inl TypeError)"

text \<open>Truth value of an object, as \<^verbatim>\<open>if obj\<close> tests it.\<close>

definition truthy :: "pyval \<Rightarrow> bool" where
  "truthy v =
     (case v of
        PyNone \<Rightarrow> False
      | PyBool b \<Rightarrow> b
      | PyInt i \<Rightarrow> i \<noteq> 0
      | PyFloat r \<Rightarrow> r \<noteq> ''0.0'' \<and> r \<noteq> ''-0.0''
      | PyStr s \<Rightarrow> s \<noteq> []
      | PyList xs \<Rightarrow> xs \<noteq> []
      | PyDict d \<Rightarrow> d \<noteq> [])"

section \<open>converter.py: the simplified probe\<close>

text \<open>\<^verbatim>\<open>stream[k] if k in stream else None\<close>: the condition is evaluated first.\<close>

definition field_or_None :: "pyval \<Rightarrow> string \<Rightarrow> error + pyval" where
  "field_or_None stream k =
     and_then (contains k stream) (\<lambda>present.
       if present then getitem stream k else Inr PyNone)"

text \<open>\<^verbatim>\<open>if k in stream: new_stream[k] = stream[k]\<close>.\<close>

definition copy_if_present ::
  "pyval \<Rightarrow> string \<Rightarrow> (string \<times> pyval) list \<Rightarrow> error + (string \<times> pyval) list" where
  "copy_if_present stream k new_stream =
     and_then (contains k stream) (\<lambda>present.
       if present then and_then (getitem stream k) (\<lambda>v. Inr (new_stream @ [(k, v)]))
       else Inr new_stream)"

text \<open>The body of the loop of \<^verbatim>\<open>get_simplified_probe\<close> (lines 51 to 63): the record built
  for one raw stream.\<close>

definition new_stream_of :: "pyval \<Rightarrow> error + pyval" where
  "new_stream_of stream =
     and_then (field_or_None stream ''codec_name'') (\<lambda>codec_name.
     and_then (field_or_None stream ''codec_type'') (\<lambda>codec_type.
     and_then (field_or_None stream ''duration'') (\<lambda>duration.
     and_then (field_or_None stream ''bit_rate'') (\<lambda>bit_rate.
     and_then (field_or_None stream ''r_frame_rate'') (\<lambda>frame_rate.
     and_then (field_or_None stream ''color_space'') (\<lambda>color_space.
     and_then (field_or_None stream ''color_range'') (\<lambda>color_range.
     and_then (copy_if_present stream ''width''
        [(''codec_name'', codec_name), (''codec_type'', codec_type),
         (''duration'', duration), (''bit_rate'', bit_rate),
         (''frame_rate'', frame_rate), (''color_space'', color_space),
         (''color_range'', color_range)]) (\<lambda>with_width.
     and_then (copy_if_present stream ''height'' with_width) (\<lambda>new_stream.
       Inr (PyDict new_stream))))))))))"

text \<open>The loop itself (lines 50 to 65): \<^verbatim>\<open>acc\<close> is \<^verbatim>\<open>probe['streams']\<close>, appended to
  once per stream.\<close>

fun simplify_streams :: "pyval list \<Rightarrow> pyval list \<Rightarrow> error + pyval list" where
  "simplify_streams acc [] = Inr acc"
| "simplify_streams acc (stream # rest) =
     and_then (new_stream_of stream) (\<lambda>new_stream.
       simplify_streams (acc @ [new_stream]) rest)"

text \<open>\<^verbatim>\<open>get_simplified_probe\<close> (lines 34 to 67), in the order Python evaluates it: the
  dict display of line 41 first, entry by entry, then the loop over
  \<^verbatim>\<open>probe_raw['streams']\<close>.\<close>

definition get_simplified_probe :: "pyval \<Rightarrow> error + pyval" where
  "get_simplified_probe probe_raw =
     and_then (and_then (getitem probe_raw ''format'') (\<lambda>f. getitem f ''filename'')) (\<lambda>filename.
     and_then (and_then (getitem probe_raw ''format'') (\<lambda>f. getitem f ''duration'')) (\<lambda>duration.
     and_then (and_then (getitem probe_raw ''format'') (\<lambda>f. getitem f ''size'')) (\<lambda>size_v.
     and_then (and_then (getitem probe_raw ''format'') (\<lambda>f. getitem f ''bit_rate'')) (\<lambda>bit_rate.
     and_then (and_then (getitem probe_raw ''format'') (\<lambda>f. getitem f ''tags'')) (\<lambda>tags.
     and_then (contains ''creation_time'' tags) (\<lambda>present.
     and_then (if present
               then and_then (and_then (getitem probe_raw ''format'') (\<lambda>f. getitem f ''tags''))
                      (\<lambda>t. getitem t ''creation_time'')
               else Inr PyNone) (\<lambda>creation_time.
     and_then (getitem probe_raw ''streams'') (\<lambda>streams.
     and_then (iterate streams) (\<lambda>items.
     and_then (simplify_streams [] items) (\<lambda>new_streams.
       Inr (PyDict
         [(''filename'', filename), (''duration'', duration), (''size'', size_v),
          (''bit_rate'', bit_rate), (''creation_time'', creation_time),
          (''streams'', PyList new_streams)])))))))))))"

text \<open>What the methods print: each printed line is the sequence of the pieces of its
  f-string, a literal text or a formatted value.\<close>

datatype fragment = Lit string | Fmt pyval

type_synonym line = "fragment list"

text \<open>A step whose exception leaves the function, with the state as it is then.\<close>

definition or_raise :: "error + 'a \<Rightarrow> 's \<Rightarrow> ('a \<Rightarrow> (error + 'b) \<times> 's) \<Rightarrow> (error + 'b) \<times> 's" where
  "or_raise m s f = (case m of Inl e \<Rightarrow> (Inl e, s) | Inr x \<Rightarrow> f x)"

text \<open>\<^verbatim>\<open>self.probe["streams"][0][k]\<close>.\<close>

definition first_stream_field :: "pyval \<Rightarrow> string \<Rightarrow> error + pyval" where
  "first_stream_field probe k =
     and_then (getitem probe ''streams'') (\<lambda>streams.
     and_then (getitem0 streams) (\<lambda>stream. getitem stream k))"

text \<open>\<^verbatim>\<open>print_metadata\<close> (lines 69 to 76) on \<^verbatim>\<open>self.probe\<close>: four prints, each after the
  lookups of its f-string, left to right.\<close>

definition print_metadata :: "pyval \<Rightarrow> line list \<Rightarrow> (error + pyval) \<times> line list" where
  "print_metadata probe out =
     or_raise (getitem probe ''duration'') out (\<lambda>duration.
     let out1 = out @ [[Lit ''Video duration: '', Fmt duration]] in
     or_raise (first_stream_field probe ''frame_rate'') out1 (\<lambda>frame_rate.
     let out2 = out1 @ [[Lit ''Video framerate: '', Fmt frame_rate]] in
     or_raise (first_stream_field probe ''width'') out2 (\<lambda>width.
     or_raise (first_stream_field probe ''height'') out2 (\<lambda>height.
     let out3 = out2 @ [[Lit ''Video dimensions: '', Fmt width, Lit ''x'', Fmt height]] in
     or_raise (and_then (getitem probe ''creation_time'') (\<lambda>c.
                 if truthy c then getitem probe ''creation_time'' else Inr (PyStr ''Unknown'')))
       out3 (\<lambda>creation_time.
     (Inr PyNone, out3 @ [[Lit ''Video creation time: '', Fmt creation_time]]))))))"

text \<open>The list comprehension of line 91: the streams whose \<^verbatim>\<open>codec_type\<close> equals
  \<^verbatim>\<open>'video'\<close>.\<close>

fun video_streams_of :: "pyval list \<Rightarrow> error + pyval list" where
  "video_streams_of [] = Inr []"
| "video_streams_of (stream # rest) =
     and_then (getitem stream ''codec_type'') (\<lambda>codec_type.
     and_then (video_streams_of rest) (\<lambda>vs.
       Inr (if codec_type = PyStr ''video'' then stream # vs else vs)))"

definition accepted_formats :: "string list" where
  "accepted_formats =
     [''mov,mp4,m4a,3gp,3g2,mj2'', ''matroska,webm'', ''avi'', ''quicktime, mov'', ''rawvideo'']"

text \<open>\<^verbatim>\<open>validate_file\<close> (lines 78 to 97) on \<^verbatim>\<open>self.probe\<close>.\<close>

definition validate_file :: "pyval \<Rightarrow> line list \<Rightarrow> (error + pyval) \<times> line list" where
  "validate_file probe out =
     or_raise (and_then (getitem probe ''format'') (\<lambda>f. getitem f ''format_name'')) out (\<lambda>format.
     if format \<notin> set (map PyStr accepted_formats)
     then (Inr (PyBool False), out @ [[Lit ''Invalid format: '', Fmt format]])
     else
       or_raise (and_then (getitem probe ''streams'') (\<lambda>streams.
                 and_then (iterate streams) video_streams_of)) out (\<lambda>video_streams.
       if length video_streams = 0
       then (Inr (PyBool False), out @ [[Lit ''No valid video stream.'']])
       else (Inr (PyBool True), out)))"

section \<open>Paths\<close>

text \<open>
  \<^verbatim>\<open>pathlib.Path\<close> on a POSIX system, as CPython 3.8 to 3.12 implement it: a path is its
  root (empty, one slash or two slashes) and the components after it.
\<close>

record path =
  anchor :: string
  parts :: "string list"

text \<open>\<^verbatim>\<open>s.split(c)\<close>.\<close>

fun split_on :: "char \<Rightarrow> string \<Rightarrow> string list" where
  "split_on c [] = [[]]"
| "split_on c (x # xs) =
     (if x = c then [] # split_on c xs
      else (case split_on c xs of [] \<Rightarrow> [[x]] | p # ps \<Rightarrow> (x # p) # ps))"

text \<open>\<^verbatim>\<open>Path(s)\<close>: empty components and \<^verbatim>\<open>.\<close> components are dropped; exactly two
  leading slashes are kept as the root.\<close>

definition Path :: "string \<Rightarrow> path" where
  "Path s =
     \<lparr>anchor = (if take 2 s = ''//'' \<and> take 3 s \<noteq> ''///'' then ''//''
                else if take 1 s = ''/'' then ''/'' else []),
      parts = filter (\<lambda>p. p \<noteq> [] \<and> p \<noteq> ''.'') (split_on CHR ''/'' s)\<rparr>"

fun join_with :: "string \<Rightarrow> string list \<Rightarrow> string" where
  "join_with sep [] = []"
| "join_with sep [p] = p"
| "join_with sep (p # q # ps) = p @ sep @ join_with sep (q # ps)"

text \<open>\<^verbatim>\<open>str(p)\<close>.\<close>

definition path_str :: "path \<Rightarrow> string" where
  "path_str p =
     (if anchor p = [] \<and> parts p = [] then ''.''
      else anchor p @ join_with ''/'' (parts p))"

text \<open>\<^verbatim>\<open>p / s\<close> for a string \<^verbatim>\<open>s\<close>: an absolute \<^verbatim>\<open>s\<close> replaces \<^verbatim>\<open>p\<close>.\<close>

definition joinpath :: "path \<Rightarrow> string \<Rightarrow> path" where
  "joinpath p s =
     (let q = Path s in
      if anchor q \<noteq> [] then q else p\<lparr>parts := parts p @ parts q\<rparr>)"

text \<open>\<^verbatim>\<open>p.name\<close>: the last component, empty when there is none.\<close>

definition name :: "path \<Rightarrow> string" where
  "name p = (if parts p = [] then [] else last (parts p))"

text \<open>\<^verbatim>\<open>s.rfind(c)\<close>: the index of the last \<^verbatim>\<open>c\<close>, or \<^verbatim>\<open>-1\<close>.\<close>

definition rfind :: "char \<Rightarrow> string \<Rightarrow> int" where
  "rfind c s =
     (if c \<in> set s then int (length s) - 1 - int (length (takeWhile (\<lambda>x. x \<noteq> c) (rev s)))
      else - 1)"

text \<open>\<^verbatim>\<open>p.suffix\<close>: from the last dot of the name on, unless that dot is the first or the
  last character of the name.\<close>

definition path_suffix :: "path \<Rightarrow> string" where
  "path_suffix p =
     (let i = rfind CHR ''.'' (name p) in
      if 0 < i \<and> i < int (length (name p)) - 1 then drop (nat i) (name p) else [])"

text \<open>\<^verbatim>\<open>p.stem\<close>.\<close>

definition stem :: "path \<Rightarrow> string" where
  "stem p =
     (let i = rfind CHR ''.'' (name p) in
      if 0 < i \<and> i < int (length (name p)) - 1 then take (nat i) (name p) else name p)"

text \<open>\<^verbatim>\<open>p.with_suffix(sfx)\<close>: \<^verbatim>\<open>ValueError\<close> for a suffix that holds a separator, that is
  not empty and does not start with a dot, or that is a lone dot, and for a path with an
  empty name.\<close>

definition with_suffix :: "path \<Rightarrow> string \<Rightarrow> error + path" where
  "with_suffix p sfx =
     (if CHR ''/'' \<in> set sfx then Inl ValueError
      else if (sfx \<noteq> [] \<and> take 1 sfx \<noteq> ''.'') \<or> sfx = ''.'' then Inl ValueError
      else if name p = [] then Inl ValueError
      else Inr (p\<lparr>parts := butlast (parts p) @
                  [(if path_suffix p = [] then name p
                    else take (length (name p) - length (path_suffix p)) (name p)) @ sfx]\<rparr>))"

section \<open>converter.py: the converter\<close>

record VideoConverter =
  input_path :: path
  probe_raw :: pyval
  probe :: pyval

text \<open>\<^verbatim>\<open>ffmpeg.probe\<close> is the external capability: for a file name it gives the parsed
  metadata, or raises \<^verbatim>\<open>ffmpeg.Error\<close> with the text ffprobe wrote to stderr.\<close>

type_synonym ffprobe = "string \<Rightarrow> string + pyval"

text \<open>\<^verbatim>\<open>get_metadata\<close> (lines 19 to 32).\<close>

definition get_metadata :: "ffprobe \<Rightarrow> path \<Rightarrow> line list \<Rightarrow> (error + pyval) \<times> line list" where
  "get_metadata ffprobe p out =
     (case ffprobe (path_str p) of
        Inl stderr \<Rightarrow>
          (Inl (FfmpegError (Some stderr)),
           out @ [[Lit ''Error during fetching metadata: '', Lit stderr]])
      | Inr raw \<Rightarrow> (Inr raw, out))"

text \<open>\<^verbatim>\<open>__init__\<close> (lines 8 to 17).\<close>

definition VideoConverter_init ::
  "ffprobe \<Rightarrow> path \<Rightarrow> line list \<Rightarrow> (error + VideoConverter) \<times> line list" where
  "VideoConverter_init ffprobe p out =
     (case get_metadata ffprobe p out of
        (Inl e, out1) \<Rightarrow> (Inl e, out1)
      | (Inr raw, out1) \<Rightarrow>
          or_raise (get_simplified_probe raw) out1 (\<lambda>simplified.
            (Inr \<lparr>input_path = p, probe_raw = raw, probe = simplified\<rparr>, out1)))"

text \<open>The second argument of \<^verbatim>\<open>convert\<close>, a string or a path.\<close>

datatype path_arg = StrArg string | PathArg path

text \<open>\<^verbatim>\<open>ffmpeg.run\<close> is the transcode capability: it ends normally or raises
  \<^verbatim>\<open>ffmpeg.Error\<close>, whose \<^verbatim>\<open>stderr\<close> is \<^verbatim>\<open>None\<close> unless the call captured it.\<close>

datatype run_outcome = RunOk | RunError "string option"

type_synonym ffmpeg_run = "string \<Rightarrow> string \<Rightarrow> string \<Rightarrow> run_outcome"

text \<open>What \<^verbatim>\<open>convert\<close> acts on: the printed lines, and the calls of \<^verbatim>\<open>ffmpeg.run\<close>, each
  with its input file, output file and format.\<close>

record conv_world =
  stdout :: "line list"
  ffmpeg_runs :: "(string \<times> string \<times> string) list"

text \<open>Lines 110 to 113 of \<^verbatim>\<open>convert\<close>: the output path.\<close>

definition resolve_output_path :: "path \<Rightarrow> string \<Rightarrow> path_arg option \<Rightarrow> error + path" where
  "resolve_output_path inp output_format output_path =
     (case output_path of
        None \<Rightarrow> with_suffix inp (''.'' @ output_format)
      | Some (StrArg s) \<Rightarrow> Inr (Path s)
      | Some (PathArg p) \<Rightarrow> Inr p)"

text \<open>\<^verbatim>\<open>convert\<close> (lines 99 to 127).\<close>

definition convert ::
  "ffmpeg_run \<Rightarrow> VideoConverter \<Rightarrow> string \<Rightarrow> path_arg option \<Rightarrow> conv_world
     \<Rightarrow> (error + pyval) \<times> conv_world" where
  "convert run self output_format output_path w =
     or_raise (resolve_output_path (input_path self) output_format output_path) w (\<lambda>out_path.
     if path_suffix (input_path self) = path_suffix out_path
     then (Inr PyNone,
           w\<lparr>stdout := stdout w @
             [[Lit ''Error: Input and output file types are the same ('',
               Lit (path_suffix (input_path self)), Lit ''). Conversion cancelled.'']]\<rparr>)
     else
       let w1 = w\<lparr>ffmpeg_runs := ffmpeg_runs w @
                  [(path_str (input_path self), path_str out_path, output_format)]\<rparr> in
       (case run (path_str (input_path self)) (path_str out_path) output_format of
          RunError stderr \<Rightarrow>
            (case stderr of
               None \<Rightarrow> (Inl AttributeError, w1)
             | Some text \<Rightarrow>
                 (Inl (FfmpegError stderr),
                  w1\<lparr>stdout := stdout w1 @ [[Lit ''Error during conversion: '', Lit text]]\<rparr>))
        | RunOk \<Rightarrow>
            (Inr PyNone,
             w1\<lparr>stdout := stdout w1 @
               [[Lit ''Successfully converted '', Lit (path_str (input_path self)),
                 Lit '' to '', Lit (path_str out_path)]]\<rparr>)))"

section \<open>extractor.py\<close>

text \<open>\<^verbatim>\<open>str(n)\<close> for an integer: its decimal digits, after a minus sign when negative.\<close>

fun digits :: "nat \<Rightarrow> string" where
  "digits n =
     (if n < 10 then [''0123456789'' ! n]
      else digits (n div 10) @ [''0123456789'' ! (n mod 10)])"

declare digits.simps [simp del]

definition str_int :: "int \<Rightarrow> string" where
  "str_int i = (if i < 0 then ''-'' @ digits (nat (- i)) else digits (nat i))"

record FrameExtractor =
  video_path :: path

text \<open>\<^verbatim>\<open>__init__\<close> (lines 7 to 9): the assertion on the suffix comes first, and nothing but
  the path is read.\<close>

definition FrameExtractor_init :: "path \<Rightarrow> error + FrameExtractor" where
  "FrameExtractor_init p =
     (if path_suffix p = ''.mp4'' then Inr \<lparr>video_path = p\<rparr>
      else Inl (AssertionError ''Video file must be a .mp4 file''))"

text \<open>
  The capabilities of cv2. \<^verbatim>\<open>cv2.VideoCapture(name)\<close> gives a frame source: whether it is
  opened, the text of its frame rate (a float), its reported frame count as an integer, and
  what its successive \<^verbatim>\<open>read()\<close> calls do: deliver a frame, report no frame, or raise.
  Past the end of that list a read reports no frame. \<^verbatim>\<open>cv2.imwrite\<close> returns whether
  the image was written, or raises; \<^verbatim>\<open>mkdir\<close> may raise.
\<close>

datatype 'f read_result = Frame 'f | NoFrame | ReadRaises string

record 'f capture =
  is_opened :: bool
  fps_text :: string
  total_frames :: int
  reads :: "'f read_result list"

record 'f cv2 =
  VideoCapture :: "string \<Rightarrow> 'f capture"
  imwrite :: "string \<Rightarrow> 'f \<Rightarrow> error + bool"
  mkdir :: "string \<Rightarrow> error option"

text \<open>What \<^verbatim>\<open>extract_frames\<close> acts on: the sources opened and the number of
  \<^verbatim>\<open>release()\<close> calls, the directories created, the image files written (name and frame,
  in the order of writing), and the progress bar.\<close>

record 'f world =
  opened :: "string list"
  released :: nat
  dirs :: "string list"
  files :: "(string \<times> 'f) list"
  pbar_total :: "int option"
  pbar_n :: int
  pbar_closed :: bool

text \<open>The local variables of the loop.\<close>

record loop_vars =
  frame_count :: int
  extracted_count :: int

text \<open>\<^verbatim>\<open>str(frame_dir / f"{frame_count}.jpeg")\<close> (line 42).\<close>

definition frame_file :: "path \<Rightarrow> int \<Rightarrow> path" where
  "frame_file frame_dir i = joinpath frame_dir (str_int i @ ''.jpeg'')"

text \<open>The loop of lines 36 to 48 on an opened source, by recursion on the reads still to
  come: the loop is left at the first read that delivers no frame, and by the exception
  when a read or a write raises.\<close>

fun extract_loop ::
  "'f cv2 \<Rightarrow> path \<Rightarrow> int \<Rightarrow> 'f read_result list \<Rightarrow> loop_vars \<Rightarrow> 'f world
     \<Rightarrow> (error + unit) \<times> loop_vars \<times> 'f world" where
  "extract_loop cv frame_dir frame_interval [] v w = (Inr (), v, w)"
| "extract_loop cv frame_dir frame_interval (NoFrame # rest) v w = (Inr (), v, w)"
| "extract_loop cv frame_dir frame_interval (ReadRaises msg # rest) v w = (Inl (Cv2Error msg), v, w)"
| "extract_loop cv frame_dir frame_interval (Frame frame # rest) v w =
     (if frame_interval = 0 then (Inl ZeroDivisionError, v, w)
      else if frame_count v mod frame_interval = 0 then
        (case imwrite cv (path_str (frame_file frame_dir (frame_count v))) frame of
           Inl e \<Rightarrow> (Inl e, v, w)
         | Inr written \<Rightarrow>
             extract_loop cv frame_dir frame_interval rest
               (v\<lparr>extracted_count := extracted_count v + 1, frame_count := frame_count v + 1\<rparr>)
               (w\<lparr>files := (if written
                              then files w @ [(path_str (frame_file frame_dir (frame_count v)), frame)]
                              else files w),
                   pbar_n := pbar_n w + 1\<rparr>))
      else extract_loop cv frame_dir frame_interval rest
             (v\<lparr>frame_count := frame_count v + 1\<rparr>) w)"

text \<open>Lines 24 to 28: the directory of the frames.\<close>

definition frame_dir_of :: "FrameExtractor \<Rightarrow> string \<Rightarrow> path" where
  "frame_dir_of self fps = Path (''frames_'' @ stem (video_path self) @ ''_'' @ fps)"

text \<open>\<^verbatim>\<open>extract_frames\<close> (lines 11 to 50). The function has no \<^verbatim>\<open>return\<close> statement: when
  it ends normally its value is \<^verbatim>\<open>None\<close>. The second component is the values of the
  loop's local variables when the function is left, which the caller does not see.\<close>

definition extract_frames ::
  "'f cv2 \<Rightarrow> FrameExtractor \<Rightarrow> int \<Rightarrow> 'f world \<Rightarrow> (error + pyval) \<times> loop_vars \<times> 'f world" where
  "extract_frames cv self frame_interval w =
     (let video = VideoCapture cv (path_str (video_path self));
          w1 = w\<lparr>opened := opened w @ [path_str (video_path self)]\<rparr>;
          fps = fps_text video;
          v0 = \<lparr>frame_count = 0, extracted_count = 0\<rparr>
      in
      if frame_interval = 0 then (Inl ZeroDivisionError, v0, w1)
      else
        let num_frames_to_extract = total_frames video div frame_interval;
            frame_dir = frame_dir_of self fps
        in
        (case mkdir cv (path_str frame_dir) of
           Some e \<Rightarrow> (Inl e, v0, w1)
         | None \<Rightarrow>
             let w2 = w1\<lparr>dirs := dirs w1 @ [path_str frame_dir],
                         pbar_total := Some num_frames_to_extract, pbar_n := 0,
                         pbar_closed := False\<rparr>
             in
             (case (if is_opened video
                    then extract_loop cv frame_dir frame_interval (reads video) v0 w2
                    else (Inr (), v0, w2)) of
                (Inl e, v, w3) \<Rightarrow> (Inl e, v, w3)
              | (Inr u, v, w3) \<Rightarrow>
                  (Inr PyNone, v, w3\<lparr>released := released w3 + 1, pbar_closed := True\<rparr>))))"

section \<open>Values used in the statements\<close>

text \<open>The value of an optional entry of a dict: \<^verbatim>\<open>None\<close> when the key is missing.\<close>

definition or_None :: "pyval option \<Rightarrow> pyval" where
  "or_None v = (case v of None \<Rightarrow> PyNone | Some x \<Rightarrow> x)"

text \<open>The record \<^verbatim>\<open>new_stream\<close> for a raw stream that is the dict \<open>d\<close>, in closed form
  (\<open>new_stream_of_dict\<close> below proves that the loop body computes it): seven entries that are
  always there, then \<^verbatim>\<open>width\<close> and \<^verbatim>\<open>height\<close> only when the raw stream has them.\<close>

definition simplified_stream :: "(string \<times> pyval) list \<Rightarrow> (string \<times> pyval) list" where
  "simplified_stream d =
     [(''codec_name'', or_None (map_of d ''codec_name'')),
      (''codec_type'', or_None (map_of d ''codec_type'')),
      (''duration'', or_None (map_of d ''duration'')),
      (''bit_rate'', or_None (map_of d ''bit_rate'')),
      (''frame_rate'', or_None (map_of d ''r_frame_rate'')),
      (''color_space'', or_None (map_of d ''color_space'')),
      (''color_range'', or_None (map_of d ''color_range''))]
     @ (case map_of d ''width'' of None \<Rightarrow> [] | Some w \<Rightarrow> [(''width'', w)])
     @ (case map_of d ''height'' of None \<Rightarrow> [] | Some h \<Rightarrow> [(''height'', h)])"

text \<open>A container section, an audio stream and a video stream as ffprobe reports them, for
  the concrete instances.\<close>

definition example_format :: "(string \<times> pyval) list" where
  "example_format =
     [(''filename'', PyStr ''clip.mov''), (''format_name'', PyStr ''mov,mp4,m4a,3gp,3g2,mj2''),
      (''duration'', PyStr ''10.000000''), (''size'', PyStr ''1048576''),
      (''bit_rate'', PyStr ''838860''), (''tags'', PyDict [(''encoder'', PyStr ''Lavf'')])]"

definition audio_stream :: "(string \<times> pyval) list" where
  "audio_stream =
     [(''codec_name'', PyStr ''aac''), (''codec_type'', PyStr ''audio''),
      (''r_frame_rate'', PyStr ''0/0''), (''duration'', PyStr ''10.000000'')]"

definition video_stream :: "(string \<times> pyval) list" where
  "video_stream =
     [(''codec_name'', PyStr ''h264''), (''codec_type'', PyStr ''video''),
      (''width'', PyInt 1920), (''height'', PyInt 1080),
      (''r_frame_rate'', PyStr ''30/1''), (''duration'', PyStr ''10.000000'')]"

definition example_raw :: pyval where
  "example_raw =
     PyDict [(''format'', PyDict example_format),
             (''streams'', PyList [PyDict audio_stream, PyDict video_stream])]"

text \<open>The simplified probe of \<open>example_raw\<close>, and the converter \<^verbatim>\<open>VideoConverter(p)\<close>
  builds when ffprobe reports \<open>example_raw\<close>.\<close>

definition example_probe :: pyval where
  "example_probe =
     PyDict
       [(''filename'', PyStr ''clip.mov''), (''duration'', PyStr ''10.000000''),
        (''size'', PyStr ''1048576''), (''bit_rate'', PyStr ''838860''),
        (''creation_time'', PyNone),
        (''streams'', PyList
           [PyDict [(''codec_name'', PyStr ''aac''), (''codec_type'', PyStr ''audio''),
                    (''duration'', PyStr ''10.000000''), (''bit_rate'', PyNone),
                    (''frame_rate'', PyStr ''0/0''), (''color_space'', PyNone),
                    (''color_range'', PyNone)],
            PyDict [(''codec_name'', PyStr ''h264''), (''codec_type'', PyStr ''video''),
                    (''duration'', PyStr ''10.000000''), (''bit_rate'', PyNone),
                    (''frame_rate'', PyStr ''30/1''), (''color_space'', PyNone),
                    (''color_range'', PyNone), (''width'', PyInt 1920),
                    (''height'', PyInt 1080)]])]"

definition example_converter :: "path \<Rightarrow> VideoConverter" where
  "example_converter p = \<lparr>input_path = p, probe_raw = example_raw, probe = example_probe\<rparr>"

definition quiet :: conv_world where
  "quiet = \<lparr>stdout = [], ffmpeg_runs = []\<rparr>"

text \<open>The simplified probe of the same file with the video stream reported first.\<close>

definition video_first_probe :: pyval where
  "video_first_probe =
     PyDict
       [(''filename'', PyStr ''clip.mov''), (''duration'', PyStr ''10.000000''),
        (''size'', PyStr ''1048576''), (''bit_rate'', PyStr ''838860''),
        (''creation_time'', PyNone),
        (''streams'', PyList
           [PyDict (simplified_stream video_stream), PyDict (simplified_stream audio_stream)])]"

text \<open>The path \<^verbatim>\<open>p\<close> with the suffix of its name replaced by a dot and \<open>fmt\<close>: the root
  and the components before the name are those of \<^verbatim>\<open>p\<close>.\<close>

definition with_format :: "path \<Rightarrow> string \<Rightarrow> path" where
  "with_format p fmt = p\<lparr>parts := butlast (parts p) @ [stem p @ ''.'' @ fmt]\<rparr>"

text \<open>A transcode capability that always succeeds.\<close>

definition run_ok :: ffmpeg_run where
  "run_ok inp out fmt = RunOk"

text \<open>A source of ten frames, numbered 100 to 109, at 30 frames per second, with writes and
  directory creation that succeed; the extractor of \<^verbatim>\<open>clip.mp4\<close>; a world where nothing
  has happened yet.\<close>

definition ten_frames :: "nat list" where
  "ten_frames = [100, 101, 102, 103, 104, 105, 106, 107, 108, 109]"

definition ten_frame_cv :: "nat cv2" where
  "ten_frame_cv =
     \<lparr>VideoCapture = (\<lambda>file. \<lparr>is_opened = True, fps_text = ''30.0'', total_frames = 10,
                               reads = map Frame ten_frames\<rparr>),
      imwrite = (\<lambda>file frame. Inr True),
      mkdir = (\<lambda>d. None)\<rparr>"

definition clip_extractor :: FrameExtractor where
  "clip_extractor = \<lparr>video_path = Path ''clip.mp4''\<rparr>"

definition fresh :: "nat world" where
  "fresh = \<lparr>opened = [], released = 0, dirs = [], files = [], pbar_total = None, pbar_n = 0,
            pbar_closed = False\<rparr>"

text \<open>The run of \<^verbatim>\<open>extract_frames(3)\<close> on that source.\<close>

definition ten_frame_run :: "(error + pyval) \<times> loop_vars \<times> nat world" where
  "ten_frame_run = extract_frames ten_frame_cv clip_extractor 3 fresh"

text \<open>The number a decimal numeral stands for: the inverse of \<open>digits\<close>, by which two
  numbers with the same numeral are equal.\<close>

definition digit_val :: "char \<Rightarrow> nat" where
  "digit_val c = length (takeWhile (\<lambda>x. x \<noteq> c) ''0123456789'')"

definition decimal_val :: "string \<Rightarrow> nat" where
  "decimal_val s = foldl (\<lambda>a c. 10 * a + digit_val c) 0 s"

section \<open>Sequencing and lookups\<close>

lemma and_then_Inr [simp]: "and_then (Inr x) f = f x"
  by (simp add: and_then_def)

lemma and_then_Inl [simp]: "and_then (Inl e) f = Inl e"
  by (simp add: and_then_def)

lemma or_raise_Inr [simp]: "or_raise (Inr x) s f = f x"
  by (simp add: or_raise_def)

lemma or_raise_Inl [simp]: "or_raise (Inl e) s f = (Inl e, s)"
  by (simp add: or_raise_def)

lemma and_then_eq_Inr: "and_then m f = Inr y \<longleftrightarrow> (\<exists>x. m = Inr x \<and> f x = Inr y)"
  by (cases m) simp_all

lemma getitem_dict:
  "getitem (PyDict d) k =
     (case map_of d k of None \<Rightarrow> Inl (KeyError (PyStr k)) | Some v \<Rightarrow> Inr v)"
  by (simp add: getitem_def)

lemma contains_dict: "contains k (PyDict d) = Inr (map_of d k \<noteq> None)"
  by (simp add: contains_def map_of_eq_None_iff)

lemma field_or_None_dict: "field_or_None (PyDict d) k = Inr (or_None (map_of d k))"
  by (cases "map_of d k") (simp_all add: field_or_None_def contains_dict getitem_dict or_None_def)

lemma copy_if_present_dict:
  "copy_if_present (PyDict d) k ns =
     Inr (case map_of d k of None \<Rightarrow> ns | Some v \<Rightarrow> ns @ [(k, v)])"
  by (cases "map_of d k") (simp_all add: copy_if_present_def contains_dict getitem_dict)

section \<open>The simplified probe\<close>

lemma new_stream_of_dict: "new_stream_of (PyDict d) = Inr (PyDict (simplified_stream d))"
  by (simp add: new_stream_of_def field_or_None_dict copy_if_present_dict simplified_stream_def
      split: option.splits)

lemma simplify_streams_dicts:
  "simplify_streams acc (map PyDict ds) = Inr (acc @ map (\<lambda>d. PyDict (simplified_stream d)) ds)"
  by (induction ds arbitrary: acc) (simp_all add: new_stream_of_dict)

lemma simplify_complete:
  assumes "map_of raw ''format'' = Some (PyDict fmt)"
    and "map_of fmt ''filename'' = Some filename"
    and "map_of fmt ''duration'' = Some duration"
    and "map_of fmt ''size'' = Some size_v"
    and "map_of fmt ''bit_rate'' = Some bit_rate"
    and "map_of fmt ''tags'' = Some (PyDict tags)"
    and "map_of raw ''streams'' = Some (PyList (map PyDict ds))"
  shows "get_simplified_probe (PyDict raw) =
     Inr (PyDict
       [(''filename'', filename), (''duration'', duration), (''size'', size_v),
        (''bit_rate'', bit_rate), (''creation_time'', or_None (map_of tags ''creation_time'')),
        (''streams'', PyList (map (\<lambda>d. PyDict (simplified_stream d)) ds))])"
  using assms
  by (cases "map_of tags ''creation_time''")
     (simp_all add: get_simplified_probe_def getitem_dict contains_dict iterate_def
       simplify_streams_dicts or_None_def)

lemma simplify_needs_streams:
  assumes "get_simplified_probe raw = Inr p"
  shows "\<exists>s. getitem raw ''streams'' = Inr s"
  using assms unfolding get_simplified_probe_def and_then_eq_Inr by blast

lemma simplify_needs_format_fields:
  assumes "get_simplified_probe raw = Inr p"
  shows "\<exists>f a b c d. getitem raw ''format'' = Inr f \<and> getitem f ''filename'' = Inr a
     \<and> getitem f ''duration'' = Inr b \<and> getitem f ''size'' = Inr c \<and> getitem f ''bit_rate'' = Inr d"
  using assms by (auto simp: get_simplified_probe_def and_then_eq_Inr)

lemma simplify_incomplete:
  assumes f: "map_of raw ''format'' = Some (PyDict fmt)"
    and missing: "map_of fmt ''filename'' = None \<or> map_of fmt ''duration'' = None
       \<or> map_of fmt ''size'' = None \<or> map_of fmt ''bit_rate'' = None"
  shows "\<exists>k. get_simplified_probe (PyDict raw) = Inl (KeyError (PyStr k))"
proof (cases "map_of fmt ''filename''")
  case None
  with f show ?thesis by (simp add: get_simplified_probe_def getitem_dict)
next
  case a: (Some a)
  show ?thesis
  proof (cases "map_of fmt ''duration''")
    case None
    with f a show ?thesis by (simp add: get_simplified_probe_def getitem_dict)
  next
    case b: (Some b)
    show ?thesis
    proof (cases "map_of fmt ''size''")
      case None
      with f a b show ?thesis by (simp add: get_simplified_probe_def getitem_dict)
    next
      case c: (Some c)
      with missing a b have "map_of fmt ''bit_rate'' = None" by simp
      with f a b c show ?thesis by (simp add: get_simplified_probe_def getitem_dict)
    qed
  qed
qed

text \<open>
  C1, as amended. A raw result without the \<^verbatim>\<open>format\<close> key fails with the \<^verbatim>\<open>KeyError\<close> of
  that key, and one without the \<^verbatim>\<open>streams\<close> key fails. When \<^verbatim>\<open>format\<close> is a dict with a
  \<^verbatim>\<open>tags\<close> dict and \<^verbatim>\<open>streams\<close> is a list of dicts, the simplification succeeds if
  \<^verbatim>\<open>filename\<close>, \<^verbatim>\<open>duration\<close>, \<^verbatim>\<open>size\<close> and \<^verbatim>\<open>bit_rate\<close> are all in \<^verbatim>\<open>format\<close>, whichever of
  \<^verbatim>\<open>creation_time\<close> and of the keys of each stream are there: a missing \<^verbatim>\<open>creation_time\<close>,
  \<^verbatim>\<open>codec_name\<close>, \<^verbatim>\<open>codec_type\<close>, \<^verbatim>\<open>duration\<close>, \<^verbatim>\<open>bit_rate\<close>, \<^verbatim>\<open>r_frame_rate\<close>,
  \<^verbatim>\<open>color_space\<close> or \<^verbatim>\<open>color_range\<close> becomes \<^verbatim>\<open>None\<close>, and a missing \<^verbatim>\<open>width\<close> or
  \<^verbatim>\<open>height\<close> leaves the stream record without that key. When one of the four container
  fields is missing, it fails with a \<^verbatim>\<open>KeyError\<close>.
\<close>

theorem get_simplified_probe_total_on_complete_format:
  "(map_of raw ''format'' = None \<longrightarrow>
      get_simplified_probe (PyDict raw) = Inl (KeyError (PyStr ''format'')))
   \<and> (map_of raw ''streams'' = None \<longrightarrow> isl (get_simplified_probe (PyDict raw)))
   \<and> (map_of raw ''format'' = Some (PyDict fmt) \<and> map_of fmt ''tags'' = Some (PyDict tags)
        \<and> map_of raw ''streams'' = Some (PyList (map PyDict ds)) \<longrightarrow>
       (map_of fmt ''filename'' = Some filename \<and> map_of fmt ''duration'' = Some duration
          \<and> map_of fmt ''size'' = Some size_v \<and> map_of fmt ''bit_rate'' = Some bit_rate \<longrightarrow>
        get_simplified_probe (PyDict raw) =
          Inr (PyDict
            [(''filename'', filename), (''duration'', duration), (''size'', size_v),
             (''bit_rate'', bit_rate),
             (''creation_time'', or_None (map_of tags ''creation_time'')),
             (''streams'', PyList (map (\<lambda>d. PyDict (simplified_stream d)) ds))]))
       \<and> (map_of fmt ''filename'' = None \<or> map_of fmt ''duration'' = None
            \<or> map_of fmt ''size'' = None \<or> map_of fmt ''bit_rate'' = None \<longrightarrow>
          (\<exists>k. get_simplified_probe (PyDict raw) = Inl (KeyError (PyStr k)))))"
proof (intro conjI impI)
  assume "map_of raw ''format'' = None"
  then show "get_simplified_probe (PyDict raw) = Inl (KeyError (PyStr ''format''))"
    by (simp add: get_simplified_probe_def getitem_dict)
next
  assume none: "map_of raw ''streams'' = None"
  show "isl (get_simplified_probe (PyDict raw))"
  proof (cases "get_simplified_probe (PyDict raw)")
    case (Inl e)
    then show ?thesis by simp
  next
    case (Inr p)
    from simplify_needs_streams[OF this] none show ?thesis
      by (simp add: getitem_dict)
  qed
next
  assume "map_of raw ''format'' = Some (PyDict fmt) \<and> map_of fmt ''tags'' = Some (PyDict tags)
        \<and> map_of raw ''streams'' = Some (PyList (map PyDict ds))"
    and "map_of fmt ''filename'' = Some filename \<and> map_of fmt ''duration'' = Some duration
          \<and> map_of fmt ''size'' = Some size_v \<and> map_of fmt ''bit_rate'' = Some bit_rate"
  then show "get_simplified_probe (PyDict raw) =
          Inr (PyDict
            [(''filename'', filename), (''duration'', duration), (''size'', size_v),
             (''bit_rate'', bit_rate),
             (''creation_time'', or_None (map_of tags ''creation_time'')),
             (''streams'', PyList (map (\<lambda>d. PyDict (simplified_stream d)) ds))])"
    by (simp add: simplify_complete)
next
  assume "map_of raw ''format'' = Some (PyDict fmt) \<and> map_of fmt ''tags'' = Some (PyDict tags)
        \<and> map_of raw ''streams'' = Some (PyList (map PyDict ds))"
    and "map_of fmt ''filename'' = None \<or> map_of fmt ''duration'' = None
            \<or> map_of fmt ''size'' = None \<or> map_of fmt ''bit_rate'' = None"
  then show "\<exists>k. get_simplified_probe (PyDict raw) = Inl (KeyError (PyStr k))"
    using simplify_incomplete by blast
qed

theorem get_simplified_probe_total_on_complete_format_witness:
  "get_simplified_probe
     (PyDict [(''format'', PyDict example_format),
              (''streams'', PyList [PyDict audio_stream, PyDict video_stream])]) =
   Inr (PyDict
     [(''filename'', PyStr ''clip.mov''), (''duration'', PyStr ''10.000000''),
      (''size'', PyStr ''1048576''), (''bit_rate'', PyStr ''838860''),
      (''creation_time'', PyNone),
      (''streams'', PyList
         [PyDict [(''codec_name'', PyStr ''aac''), (''codec_type'', PyStr ''audio''),
                  (''duration'', PyStr ''10.000000''), (''bit_rate'', PyNone),
                  (''frame_rate'', PyStr ''0/0''), (''color_space'', PyNone),
                  (''color_range'', PyNone)],
          PyDict [(''codec_name'', PyStr ''h264''), (''codec_type'', PyStr ''video''),
                  (''duration'', PyStr ''10.000000''), (''bit_rate'', PyNone),
                  (''frame_rate'', PyStr ''30/1''), (''color_space'', PyNone),
                  (''color_range'', PyNone), (''width'', PyInt 1920),
                  (''height'', PyInt 1080)]])])
   \<and> get_simplified_probe (PyDict [(''streams'', PyList [])]) = Inl (KeyError (PyStr ''format''))
   \<and> isl (get_simplified_probe (PyDict [(''format'', PyDict example_format)]))
   \<and> (\<exists>k. get_simplified_probe
          (PyDict [(''format'', PyDict [(''filename'', PyStr ''clip.mov''), (''tags'', PyDict [])]),
                   (''streams'', PyList [])]) = Inl (KeyError (PyStr k)))"
proof (intro conjI)
  show "\<exists>k. get_simplified_probe
          (PyDict [(''format'', PyDict [(''filename'', PyStr ''clip.mov''), (''tags'', PyDict [])]),
                   (''streams'', PyList [])]) = Inl (KeyError (PyStr k))"
    using get_simplified_probe_total_on_complete_format
      [of "[(''format'', PyDict [(''filename'', PyStr ''clip.mov''), (''tags'', PyDict [])]),
            (''streams'', PyList [])]"
          "[(''filename'', PyStr ''clip.mov''), (''tags'', PyDict [])]" "[]" "[]"]
    by simp
  show "get_simplified_probe (PyDict [(''streams'', PyList [])]) = Inl (KeyError (PyStr ''format''))"
    using get_simplified_probe_total_on_complete_format
      [of "[(''streams'', PyList [])]"]
    by simp
  show "isl (get_simplified_probe (PyDict [(''format'', PyDict example_format)]))"
    using get_simplified_probe_total_on_complete_format
      [of "[(''format'', PyDict example_format)]"]
    by simp
  show "get_simplified_probe
     (PyDict [(''format'', PyDict example_format),
              (''streams'', PyList [PyDict audio_stream, PyDict video_stream])]) =
   Inr (PyDict
     [(''filename'', PyStr ''clip.mov''), (''duration'', PyStr ''10.000000''),
      (''size'', PyStr ''1048576''), (''bit_rate'', PyStr ''838860''),
      (''creation_time'', PyNone),
      (''streams'', PyList
         [PyDict [(''codec_name'', PyStr ''aac''), (''codec_type'', PyStr ''audio''),
                  (''duration'', PyStr ''10.000000''), (''bit_rate'', PyNone),
                  (''frame_rate'', PyStr ''0/0''), (''color_space'', PyNone),
                  (''color_range'', PyNone)],
          PyDict [(''codec_name'', PyStr ''h264''), (''codec_type'', PyStr ''video''),
                  (''duration'', PyStr ''10.000000''), (''bit_rate'', PyNone),
                  (''frame_rate'', PyStr ''30/1''), (''color_space'', PyNone),
                  (''color_range'', PyNone), (''width'', PyInt 1920),
                  (''height'', PyInt 1080)]])])"
    using get_simplified_probe_total_on_complete_format
      [of "[(''format'', PyDict example_format),
            (''streams'', PyList [PyDict audio_stream, PyDict video_stream])]"
          example_format "[(''encoder'', PyStr ''Lavf'')]" "[audio_stream, video_stream]"
          "PyStr ''clip.mov''" "PyStr ''10.000000''" "PyStr ''1048576''" "PyStr ''838860''"]
    by (simp add: example_format_def audio_stream_def video_stream_def simplified_stream_def
        or_None_def)
qed

text \<open>
  C1 as stated fails: a raw result with both keys whose \<^verbatim>\<open>format\<close> section is empty, or
  has the four container fields but no \<^verbatim>\<open>tags\<close>, makes the simplification raise
  \<^verbatim>\<open>KeyError\<close>; and a stream without \<^verbatim>\<open>width\<close> gets no \<^verbatim>\<open>width\<close> entry at all, not a
  \<^verbatim>\<open>None\<close> one.
\<close>

theorem get_simplified_probe_optional_keys_counterexample:
  "get_simplified_probe (PyDict [(''format'', PyDict []), (''streams'', PyList [])]) =
     Inl (KeyError (PyStr ''filename''))
   \<and> get_simplified_probe
       (PyDict [(''format'', PyDict [(''filename'', PyStr ''clip.avi''),
                   (''duration'', PyStr ''10.000000''), (''size'', PyStr ''1048576''),
                   (''bit_rate'', PyStr ''838860'')]),
                (''streams'', PyList [])]) =
     Inl (KeyError (PyStr ''tags''))
   \<and> and_then (get_simplified_probe
         (PyDict [(''format'', PyDict example_format),
                  (''streams'', PyList [PyDict audio_stream])]))
       (\<lambda>p. first_stream_field p ''width'') =
     Inl (KeyError (PyStr ''width''))"
  by (simp add: get_simplified_probe_def getitem_dict contains_dict iterate_def
      new_stream_of_dict simplified_stream_def or_None_def first_stream_field_def getitem0_def
      example_format_def audio_stream_def)

section \<open>Validation\<close>

lemma example_probe_simplified: "get_simplified_probe example_raw = Inr example_probe"
  by (simp add: example_raw_def example_probe_def get_simplified_probe_def getitem_dict
      contains_dict iterate_def new_stream_of_dict simplified_stream_def or_None_def
      example_format_def audio_stream_def video_stream_def)

lemma example_converter_init:
  "VideoConverter_init (\<lambda>f. Inr example_raw) p [] = (Inr (example_converter p), [])"
  by (simp add: VideoConverter_init_def get_metadata_def example_probe_simplified
      example_converter_def)

lemma simplified_has_no_format:
  assumes "get_simplified_probe raw = Inr p"
  shows "getitem p ''format'' = Inl (KeyError (PyStr ''format''))"
  using assms by (auto simp: get_simplified_probe_def and_then_eq_Inr getitem_dict)

text \<open>
  C2. \<^verbatim>\<open>validate_file\<close> reads \<^verbatim>\<open>self.probe['format']['format_name']\<close> (line 85), and
  \<^verbatim>\<open>self.probe\<close> is the simplified probe, which has no \<^verbatim>\<open>format\<close> entry. On the converter built
  for a file that ffprobe reports with an accepted container and a video stream, the
  method raises \<^verbatim>\<open>KeyError\<close> and prints nothing, where the claim and the docstring of the
  method say it returns true.
\<close>

theorem validate_file_raises_on_example:
  "VideoConverter_init (\<lambda>f. Inr example_raw) (Path ''clip.mov'') [] =
     (Inr (example_converter (Path ''clip.mov'')), [])
   \<and> validate_file (probe (example_converter (Path ''clip.mov''))) [] =
     (Inl (KeyError (PyStr ''format'')), [])"
  by (simp add: example_converter_init example_converter_def example_probe_def
      validate_file_def getitem_dict)

text \<open>
  The same on every simplified probe: whatever raw result it was built from,
  \<^verbatim>\<open>validate_file\<close> raises the \<^verbatim>\<open>KeyError\<close> of \<^verbatim>\<open>format\<close> and prints nothing.
\<close>

theorem validate_file_raises_on_every_simplified_probe:
  assumes "get_simplified_probe raw = Inr p"
  shows "validate_file p out = (Inl (KeyError (PyStr ''format'')), out)"
  by (simp add: validate_file_def simplified_has_no_format[OF assms])

theorem validate_file_raises_on_every_simplified_probe_witness:
  "get_simplified_probe example_raw = Inr example_probe
   \<and> validate_file example_probe [] = (Inl (KeyError (PyStr ''format'')), [])"
  using validate_file_raises_on_every_simplified_probe [OF example_probe_simplified, of "[]"]
  by (simp add: example_probe_simplified)

section \<open>Printing the metadata\<close>

lemma simplify_streams_extends:
  "simplify_streams acc xs = Inr ns \<Longrightarrow> \<exists>tl. ns = acc @ tl"
proof (induction xs arbitrary: acc)
  case Nil
  then show ?case by simp
next
  case (Cons x xs)
  from Cons.prems obtain n where "new_stream_of x = Inr n"
    and "simplify_streams (acc @ [n]) xs = Inr ns"
    by (auto simp: and_then_eq_Inr)
  from Cons.IH[OF this(2)] show ?case by auto
qed

lemma simplify_streams_first:
  assumes "simplify_streams [] (PyDict d # rest) = Inr ns"
  shows "\<exists>tl. ns = PyDict (simplified_stream d) # tl"
proof -
  from assms have "simplify_streams [PyDict (simplified_stream d)] rest = Inr ns"
    by (simp add: new_stream_of_dict)
  from simplify_streams_extends[OF this] show ?thesis by simp
qed

lemma simplified_shape:
  assumes "get_simplified_probe (PyDict raw) = Inr p"
    and "map_of raw ''streams'' = Some (PyList (PyDict d # rest))"
  shows "\<exists>a b c e t tl. p = PyDict
       [(''filename'', a), (''duration'', b), (''size'', c), (''bit_rate'', e),
        (''creation_time'', t), (''streams'', PyList (PyDict (simplified_stream d) # tl))]"
proof -
  from assms obtain a b c e t ns where
    p: "p = PyDict [(''filename'', a), (''duration'', b), (''size'', c), (''bit_rate'', e),
        (''creation_time'', t), (''streams'', PyList ns)]"
    and ns: "simplify_streams [] (PyDict d # rest) = Inr ns"
    by (auto simp: get_simplified_probe_def and_then_eq_Inr getitem_dict iterate_def)
  from simplify_streams_first[OF ns] p show ?thesis by blast
qed

lemma map_of_simplified_width: "map_of (simplified_stream d) ''width'' = map_of d ''width''"
  by (simp add: simplified_stream_def split: option.splits)

lemma map_of_simplified_height: "map_of (simplified_stream d) ''height'' = map_of d ''height''"
  by (simp add: simplified_stream_def split: option.splits)

lemma map_of_simplified_frame_rate:
  "map_of (simplified_stream d) ''frame_rate'' = Some (or_None (map_of d ''r_frame_rate''))"
  by (simp add: simplified_stream_def)

lemma print_metadata_success:
  assumes "fst (print_metadata p out) = Inr v"
  shows "\<exists>w h. first_stream_field p ''width'' = Inr w \<and> first_stream_field p ''height'' = Inr h"
proof (cases "getitem p ''duration''")
  case (Inl e) with assms show ?thesis by (simp add: print_metadata_def)
next
  case d: (Inr d)
  show ?thesis
  proof (cases "first_stream_field p ''frame_rate''")
    case (Inl e) with assms d show ?thesis by (simp add: print_metadata_def)
  next
    case fr: (Inr fr)
    show ?thesis
    proof (cases "first_stream_field p ''width''")
      case (Inl e) with assms d fr show ?thesis by (simp add: print_metadata_def)
    next
      case w: (Inr w)
      show ?thesis
      proof (cases "first_stream_field p ''height''")
        case (Inl e) with assms d fr w show ?thesis by (simp add: print_metadata_def)
      next
        case (Inr h) with w show ?thesis by simp
      qed
    qed
  qed
qed

lemma print_metadata_simplified:
  assumes "get_simplified_probe (PyDict raw) = Inr p"
    and "map_of raw ''streams'' = Some (PyList (PyDict d # rest))"
  shows "fst (print_metadata p out) =
     (if map_of d ''width'' = None then Inl (KeyError (PyStr ''width''))
      else if map_of d ''height'' = None then Inl (KeyError (PyStr ''height''))
      else Inr PyNone)"
proof -
  from simplified_shape[OF assms] obtain a b c e t tl where
    p: "p = PyDict
       [(''filename'', a), (''duration'', b), (''size'', c), (''bit_rate'', e),
        (''creation_time'', t), (''streams'', PyList (PyDict (simplified_stream d) # tl))]"
    by blast
  have f: "first_stream_field p k = getitem (PyDict (simplified_stream d)) k" for k
    by (simp add: p first_stream_field_def getitem_dict getitem0_def)
  show ?thesis
    by (simp add: print_metadata_def f getitem_dict map_of_simplified_width
        map_of_simplified_height map_of_simplified_frame_rate Let_def split: option.splits)
       (simp add: p getitem_dict)
qed

text \<open>
  C9. \<^verbatim>\<open>print_metadata\<close> ends normally only if the first stream of the probe has both a
  \<^verbatim>\<open>width\<close> and a \<^verbatim>\<open>height\<close> entry. On the simplified probe of a raw result whose first
  stream is the dict \<open>d\<close>, it raises the \<^verbatim>\<open>KeyError\<close> of \<^verbatim>\<open>width\<close> when \<open>d\<close> has no width,
  that of \<^verbatim>\<open>height\<close> when it has a width and no height, and ends normally otherwise: a
  stream is there, and the method still fails.
\<close>

theorem print_metadata_needs_width_and_height:
  "(fst (print_metadata pr out) = Inr v \<longrightarrow>
      (\<exists>w h. first_stream_field pr ''width'' = Inr w
         \<and> first_stream_field pr ''height'' = Inr h))
   \<and> (get_simplified_probe (PyDict raw) = Inr p
        \<and> map_of raw ''streams'' = Some (PyList (PyDict d # rest)) \<longrightarrow>
      fst (print_metadata p out) =
        (if map_of d ''width'' = None then Inl (KeyError (PyStr ''width''))
         else if map_of d ''height'' = None then Inl (KeyError (PyStr ''height''))
         else Inr PyNone))"
  using print_metadata_success print_metadata_simplified by blast

theorem print_metadata_needs_width_and_height_witness:
  "get_simplified_probe example_raw = Inr example_probe
   \<and> fst (print_metadata example_probe []) = Inl (KeyError (PyStr ''width''))
   \<and> fst (print_metadata video_first_probe []) = Inr PyNone
   \<and> (\<exists>w h. first_stream_field video_first_probe ''width'' = Inr w
         \<and> first_stream_field video_first_probe ''height'' = Inr h)"
proof -
  have audio_first: "fst (print_metadata example_probe []) = Inl (KeyError (PyStr ''width''))"
    using print_metadata_needs_width_and_height
      [of example_probe "[]" PyNone
          "[(''format'', PyDict example_format),
            (''streams'', PyList [PyDict audio_stream, PyDict video_stream])]"
          example_probe audio_stream "[PyDict video_stream]"]
      example_probe_simplified
    by (simp add: example_raw_def audio_stream_def)
  have simplified: "get_simplified_probe
      (PyDict [(''format'', PyDict example_format),
               (''streams'', PyList [PyDict video_stream, PyDict audio_stream])]) =
      Inr video_first_probe"
    by (simp add: video_first_probe_def get_simplified_probe_def getitem_dict contains_dict
        iterate_def new_stream_of_dict or_None_def example_format_def)
  have video_first: "fst (print_metadata video_first_probe []) = Inr PyNone"
    using print_metadata_needs_width_and_height
      [of video_first_probe "[]" PyNone
          "[(''format'', PyDict example_format),
            (''streams'', PyList [PyDict video_stream, PyDict audio_stream])]"
          video_first_probe video_stream "[PyDict audio_stream]"]
      simplified
    by (simp add: video_stream_def)
  from video_first print_metadata_needs_width_and_height
      [of video_first_probe "[]" PyNone]
  have "\<exists>w h. first_stream_field video_first_probe ''width'' = Inr w
         \<and> first_stream_field video_first_probe ''height'' = Inr h"
    by blast
  with audio_first video_first example_probe_simplified show ?thesis by blast
qed

section \<open>Suffixes\<close>

lemma stem_path_suffix: "stem p @ path_suffix p = name p"
  by (simp add: stem_def path_suffix_def Let_def)

lemma with_suffix_keeps_stem:
  "(if path_suffix p = [] then name p
    else take (length (name p) - length (path_suffix p)) (name p)) = stem p"
  by (auto simp: stem_def path_suffix_def Let_def)

lemma path_suffix_mp4_iff:
  "path_suffix p = ''.mp4'' \<longleftrightarrow> (\<exists>s. s \<noteq> [] \<and> name p = s @ ''.mp4'')"
proof
  assume h: "path_suffix p = ''.mp4''"
  define i where "i = nat (rfind CHR ''.'' (name p))"
  from h have "0 < i" and d: "drop i (name p) = ''.mp4''"
    by (auto simp: path_suffix_def Let_def i_def split: if_splits)
  have "name p = take i (name p) @ drop i (name p)" by simp
  moreover from \<open>0 < i\<close> d have "take i (name p) \<noteq> []" by auto
  ultimately show "\<exists>s. s \<noteq> [] \<and> name p = s @ ''.mp4''" using d by metis
next
  assume "\<exists>s. s \<noteq> [] \<and> name p = s @ ''.mp4''"
  then obtain s where "s \<noteq> []" and n: "name p = s @ ''.mp4''" by blast
  then have "0 < length s" by simp
  then show "path_suffix p = ''.mp4''"
    by (simp add: path_suffix_def rfind_def n)
qed

lemma clip_mov: "Path ''clip.mov'' = \<lparr>anchor = [], parts = [''clip.mov'']\<rparr>"
  by (simp add: Path_def)

lemma clip_mp4: "Path ''clip.mp4'' = \<lparr>anchor = [], parts = [''clip.mp4'']\<rparr>"
  by (simp add: Path_def)

lemma suffix_clip_mov: "path_suffix (Path ''clip.mov'') = ''.mov''"
  by (simp add: clip_mov path_suffix_def name_def rfind_def)

lemma suffix_clip_mp4: "path_suffix (Path ''clip.mp4'') = ''.mp4''"
  by (simp add: clip_mp4 path_suffix_def name_def rfind_def)

text \<open>
  C8. Constructing a \<^verbatim>\<open>FrameExtractor\<close> for a path whose suffix is not \<^verbatim>\<open>.mp4\<close> raises
  the \<^verbatim>\<open>AssertionError\<close> of line 8, and for a path whose suffix is \<^verbatim>\<open>.mp4\<close> it gives the
  extractor of that path. The suffix is \<^verbatim>\<open>.mp4\<close> exactly when the name of the file is a
  non-empty stem followed by \<^verbatim>\<open>.mp4\<close>. The constructor is a function of the path alone: it
  has no access to the capabilities of cv2, so nothing is opened or decoded by it.
\<close>

theorem FrameExtractor_init_requires_mp4:
  "(path_suffix p \<noteq> ''.mp4'' \<longrightarrow>
      FrameExtractor_init p = Inl (AssertionError ''Video file must be a .mp4 file''))
   \<and> (path_suffix p = ''.mp4'' \<longrightarrow> FrameExtractor_init p = Inr \<lparr>video_path = p\<rparr>)
   \<and> (path_suffix p = ''.mp4'' \<longleftrightarrow> (\<exists>s. s \<noteq> [] \<and> name p = s @ ''.mp4''))"
proof (intro conjI impI)
  assume "path_suffix p \<noteq> ''.mp4''"
  then show "FrameExtractor_init p = Inl (AssertionError ''Video file must be a .mp4 file'')"
    by (simp add: FrameExtractor_init_def)
next
  assume "path_suffix p = ''.mp4''"
  then show "FrameExtractor_init p = Inr \<lparr>video_path = p\<rparr>"
    by (simp add: FrameExtractor_init_def)
next
  show "path_suffix p = ''.mp4'' \<longleftrightarrow> (\<exists>s. s \<noteq> [] \<and> name p = s @ ''.mp4'')"
    by (rule path_suffix_mp4_iff)
qed

theorem FrameExtractor_init_requires_mp4_witness:
  "FrameExtractor_init (Path ''clip.mov'') =
     Inl (AssertionError ''Video file must be a .mp4 file'')
   \<and> FrameExtractor_init (Path ''clip.mp4'') = Inr \<lparr>video_path = Path ''clip.mp4''\<rparr>
   \<and> FrameExtractor_init (Path ''.mp4'') =
     Inl (AssertionError ''Video file must be a .mp4 file'')"
proof -
  have hidden: "Path ''.mp4'' = \<lparr>anchor = [], parts = [''.mp4'']\<rparr>"
    by (simp add: Path_def)
  have "path_suffix (Path ''.mp4'') \<noteq> ''.mp4''"
    using FrameExtractor_init_requires_mp4 [of "Path ''.mp4''"]
    by (simp add: hidden name_def)
  with FrameExtractor_init_requires_mp4 [of "Path ''.mp4''"]
    FrameExtractor_init_requires_mp4 [of "Path ''clip.mov''"]
    FrameExtractor_init_requires_mp4 [of "Path ''clip.mp4''"]
  show ?thesis
    by (simp add: suffix_clip_mov suffix_clip_mp4)
qed

section \<open>Conversion\<close>

lemma resolve_derived:
  assumes "name inp \<noteq> []" and "fmt \<noteq> []" and "CHR ''/'' \<notin> set fmt"
  shows "resolve_output_path inp fmt None = Inr (with_format inp fmt)"
  using assms
  by (simp add: resolve_output_path_def with_suffix_def with_suffix_keeps_stem with_format_def)

lemma convert_runs:
  assumes "resolve_output_path (input_path self) fmt arg = Inr out_path"
    and "path_suffix (input_path self) \<noteq> path_suffix out_path"
  shows "ffmpeg_runs (snd (convert run self fmt arg w)) =
     ffmpeg_runs w @ [(path_str (input_path self), path_str out_path, fmt)]"
  using assms
  by (cases "run (path_str (input_path self)) (path_str out_path) fmt")
     (simp_all add: convert_def Let_def split: option.splits)

lemma clip_mp4_with_mp4: "with_format (Path ''clip.mp4'') ''mp4'' = Path ''clip.mp4''"
  by (simp add: with_format_def clip_mp4 stem_def name_def rfind_def)

lemma clip_mov_with_mp4: "with_format (Path ''clip.mov'') ''mp4'' = Path ''clip.mp4''"
  by (simp add: with_format_def clip_mov clip_mp4 stem_def name_def rfind_def)

lemma out_copy_mp4: "Path ''out/copy.mp4'' = \<lparr>anchor = [], parts = [''out'', ''copy.mp4'']\<rparr>"
  by (simp add: Path_def)

lemma suffix_out_copy_mp4: "path_suffix (Path ''out/copy.mp4'') = ''.mp4''"
  by (simp add: out_copy_mp4 path_suffix_def name_def rfind_def)

text \<open>
  C5. When the output path of \<^verbatim>\<open>convert\<close>, given or derived from the format, has the suffix
  of the input path, \<^verbatim>\<open>convert\<close> prints the line of line 116 and returns: \<^verbatim>\<open>ffmpeg.run\<close>
  is not called, whatever it would do, so no output file is created or changed.
\<close>

theorem convert_same_suffix_cancels:
  assumes "resolve_output_path (input_path self) output_format output_path = Inr out_path"
    and "path_suffix (input_path self) = path_suffix out_path"
  shows "convert run self output_format output_path w =
     (Inr PyNone,
      w\<lparr>stdout := stdout w @
        [[Lit ''Error: Input and output file types are the same ('',
          Lit (path_suffix (input_path self)), Lit ''). Conversion cancelled.'']]\<rparr>)
     \<and> ffmpeg_runs (snd (convert run self output_format output_path w)) = ffmpeg_runs w"
  using assms by (simp add: convert_def)

theorem convert_same_suffix_cancels_witness:
  "convert run_ok (example_converter (Path ''clip.mp4'')) ''mp4'' None quiet =
     (Inr PyNone,
      \<lparr>stdout = [[Lit ''Error: Input and output file types are the same ('',
                   Lit ''.mp4'', Lit ''). Conversion cancelled.'']],
       ffmpeg_runs = []\<rparr>)
   \<and> convert run_ok (example_converter (Path ''clip.mp4'')) ''avi''
       (Some (StrArg ''out/copy.mp4'')) quiet =
     (Inr PyNone,
      \<lparr>stdout = [[Lit ''Error: Input and output file types are the same ('',
                   Lit ''.mp4'', Lit ''). Conversion cancelled.'']],
       ffmpeg_runs = []\<rparr>)"
proof -
  have derived: "resolve_output_path (input_path (example_converter (Path ''clip.mp4''))) ''mp4''
      None = Inr (Path ''clip.mp4'')"
  proof -
    have "name (Path ''clip.mp4'') \<noteq> []"
      by (simp add: clip_mp4 name_def)
    from resolve_derived [OF this, of "''mp4''"] show ?thesis
      by (simp add: example_converter_def clip_mp4_with_mp4)
  qed
  have given: "resolve_output_path (input_path (example_converter (Path ''clip.mp4''))) ''avi''
      (Some (StrArg ''out/copy.mp4'')) = Inr (Path ''out/copy.mp4'')"
    by (simp add: resolve_output_path_def)
  have same1: "path_suffix (input_path (example_converter (Path ''clip.mp4''))) =
      path_suffix (Path ''clip.mp4'')"
    by (simp add: example_converter_def)
  have same2: "path_suffix (input_path (example_converter (Path ''clip.mp4''))) =
      path_suffix (Path ''out/copy.mp4'')"
    by (simp add: example_converter_def suffix_clip_mp4 suffix_out_copy_mp4)
  show ?thesis
    using convert_same_suffix_cancels [OF derived same1, of run_ok quiet]
      convert_same_suffix_cancels [OF given same2, of run_ok quiet]
    by (simp add: quiet_def example_converter_def suffix_clip_mp4)
qed

lemma rfind_last:
  assumes "c \<notin> set t"
  shows "rfind c (s @ c # t) = int (length s)"
proof -
  from assms have "\<And>x. x \<in> set (rev t) \<Longrightarrow> x \<noteq> c" by auto
  then have "takeWhile (\<lambda>x. x \<noteq> c) (rev t @ c # rev s) =
      rev t @ takeWhile (\<lambda>x. x \<noteq> c) (c # rev s)"
    by (rule takeWhile_append2)
  then show ?thesis by (simp add: rfind_def)
qed

lemma stem_not_empty: "name p \<noteq> [] \<Longrightarrow> stem p \<noteq> []"
  by (auto simp: stem_def Let_def)

lemma path_suffix_has_name: "path_suffix p \<noteq> [] \<Longrightarrow> name p \<noteq> []"
  by (auto simp: path_suffix_def Let_def split: if_splits)

lemma path_suffix_with_format:
  assumes "name p \<noteq> []" and "fmt \<noteq> []" and "CHR ''.'' \<notin> set fmt"
  shows "path_suffix (with_format p fmt) = ''.'' @ fmt"
proof -
  have n: "name (with_format p fmt) = stem p @ CHR ''.'' # fmt"
    by (simp add: with_format_def name_def)
  from assms(1) have "0 < length (stem p)"
    using stem_not_empty by simp
  moreover from assms(2) have "0 < length fmt" by simp
  ultimately show ?thesis
    using assms(3) by (simp add: path_suffix_def n rfind_last)
qed

lemma resolve_raises_iff:
  "resolve_output_path inp fmt None = Inl ValueError \<longleftrightarrow>
     fmt = [] \<or> CHR ''/'' \<in> set fmt \<or> name inp = []"
  by (auto simp: resolve_output_path_def with_suffix_def)

lemma convert_raises:
  assumes "resolve_output_path (input_path self) fmt arg = Inl e"
  shows "convert run self fmt arg w = (Inl e, w)"
  using assms by (simp add: convert_def)

lemma data_clip_mov:
  "Path ''/data/in/clip.mov'' = \<lparr>anchor = ''/'', parts = [''data'', ''in'', ''clip.mov'']\<rparr>"
  by (simp add: Path_def)

lemma data_clip_mov_with_mp4:
  "with_format (Path ''/data/in/clip.mov'') ''mp4'' =
     \<lparr>anchor = ''/'', parts = [''data'', ''in'', ''clip.mp4'']\<rparr>"
  by (simp add: with_format_def data_clip_mov stem_def name_def rfind_def)

text \<open>
  C6. With no output path given, for an input path with a suffix (more generally, with a
  non-empty name) and an output format, a non-empty text without a slash, the output path
  of \<^verbatim>\<open>convert\<close> is the input path with the suffix of its name replaced by a dot and the
  format: root, directories and stem are kept. When the format has no dot, the suffix of
  that path is the dot and the format, so when the suffix of the input differs from it,
  \<^verbatim>\<open>convert\<close> goes on and hands that path to \<^verbatim>\<open>ffmpeg.run\<close>.
\<close>

theorem convert_derives_output_path:
  assumes "name (input_path self) \<noteq> []"
    and "output_format \<noteq> []"
    and "CHR ''/'' \<notin> set output_format"
  shows "resolve_output_path (input_path self) output_format None =
       Inr (with_format (input_path self) output_format)
     \<and> anchor (with_format (input_path self) output_format) = anchor (input_path self)
     \<and> butlast (parts (with_format (input_path self) output_format)) =
         butlast (parts (input_path self))
     \<and> name (with_format (input_path self) output_format) =
         stem (input_path self) @ ''.'' @ output_format
     \<and> (path_suffix (input_path self) \<noteq> path_suffix (with_format (input_path self) output_format)
          \<longrightarrow> ffmpeg_runs (snd (convert run self output_format None w)) =
               ffmpeg_runs w @
                 [(path_str (input_path self),
                   path_str (with_format (input_path self) output_format), output_format)])
     \<and> (CHR ''.'' \<notin> set output_format
          \<longrightarrow> path_suffix (with_format (input_path self) output_format) = ''.'' @ output_format)
     \<and> (CHR ''.'' \<notin> set output_format \<and> path_suffix (input_path self) \<noteq> ''.'' @ output_format
          \<longrightarrow> ffmpeg_runs (snd (convert run self output_format None w)) =
               ffmpeg_runs w @
                 [(path_str (input_path self),
                   path_str (with_format (input_path self) output_format), output_format)])"
proof -
  have r: "resolve_output_path (input_path self) output_format None =
       Inr (with_format (input_path self) output_format)"
    using assms by (rule resolve_derived)
  moreover have "anchor (with_format (input_path self) output_format) = anchor (input_path self)"
    by (simp add: with_format_def)
  moreover have "butlast (parts (with_format (input_path self) output_format)) =
         butlast (parts (input_path self))"
    by (simp add: with_format_def)
  moreover have "name (with_format (input_path self) output_format) =
         stem (input_path self) @ ''.'' @ output_format"
    by (simp add: with_format_def name_def)
  moreover have runs: "path_suffix (input_path self) \<noteq>
        path_suffix (with_format (input_path self) output_format)
      \<longrightarrow> ffmpeg_runs (snd (convert run self output_format None w)) =
               ffmpeg_runs w @
                 [(path_str (input_path self),
                   path_str (with_format (input_path self) output_format), output_format)]"
    using convert_runs [OF r] by blast
  moreover have sfx: "CHR ''.'' \<notin> set output_format
      \<longrightarrow> path_suffix (with_format (input_path self) output_format) = ''.'' @ output_format"
    using path_suffix_with_format [OF assms(1) assms(2)] by blast
  moreover from runs sfx
  have "CHR ''.'' \<notin> set output_format \<and> path_suffix (input_path self) \<noteq> ''.'' @ output_format
      \<longrightarrow> ffmpeg_runs (snd (convert run self output_format None w)) =
               ffmpeg_runs w @
                 [(path_str (input_path self),
                   path_str (with_format (input_path self) output_format), output_format)]"
    by simp
  ultimately show ?thesis by blast
qed

theorem convert_derives_output_path_witness:
  "map_sum id path_str
     (resolve_output_path (input_path (example_converter (Path ''clip.mov''))) ''mp4'' None) =
     Inr ''clip.mp4''
   \<and> ffmpeg_runs (snd (convert run_ok (example_converter (Path ''clip.mov'')) ''mp4'' None quiet)) =
     [(''clip.mov'', ''clip.mp4'', ''mp4'')]
   \<and> map_sum id path_str
       (resolve_output_path (input_path (example_converter (Path ''/data/in/clip.mov'')))
          ''mp4'' None) =
     Inr ''/data/in/clip.mp4''"
proof -
  have n: "name (input_path (example_converter (Path ''clip.mov''))) \<noteq> []"
    by (simp add: example_converter_def clip_mov name_def)
  have n': "name (input_path (example_converter (Path ''/data/in/clip.mov''))) \<noteq> []"
    by (simp add: example_converter_def data_clip_mov name_def)
  have f: "''mp4'' \<noteq> []" and s: "CHR ''/'' \<notin> set ''mp4''"
    by simp_all
  have here: "map_sum id path_str
     (resolve_output_path (input_path (example_converter (Path ''clip.mov''))) ''mp4'' None) =
     Inr ''clip.mp4''
   \<and> ffmpeg_runs (snd (convert run_ok (example_converter (Path ''clip.mov'')) ''mp4'' None quiet)) =
     [(''clip.mov'', ''clip.mp4'', ''mp4'')]"
    using convert_derives_output_path [OF n f s, of run_ok quiet]
    by (simp add: example_converter_def clip_mov_with_mp4 suffix_clip_mov suffix_clip_mp4
        quiet_def)
       (simp add: clip_mov clip_mp4 path_str_def)
  have there: "map_sum id path_str
       (resolve_output_path (input_path (example_converter (Path ''/data/in/clip.mov'')))
          ''mp4'' None) =
     Inr ''/data/in/clip.mp4''"
    using convert_derives_output_path [OF n' f s, of run_ok quiet]
    by (simp add: example_converter_def data_clip_mov_with_mp4 path_str_def)
  from here there show ?thesis by blast
qed

text \<open>
  When no output path is given, \<^verbatim>\<open>with_suffix\<close> raises \<^verbatim>\<open>ValueError\<close> exactly for an empty
  format, a format that holds a slash, and an input path with an empty name; \<^verbatim>\<open>convert\<close> is
  then left by that exception, with nothing printed and \<^verbatim>\<open>ffmpeg.run\<close> not called.
\<close>

theorem convert_raises_on_invalid_format:
  "(resolve_output_path (input_path self) output_format None = Inl ValueError \<longleftrightarrow>
      output_format = [] \<or> CHR ''/'' \<in> set output_format \<or> name (input_path self) = [])
   \<and> (output_format = [] \<or> CHR ''/'' \<in> set output_format \<or> name (input_path self) = []
        \<longrightarrow> convert run self output_format None w = (Inl ValueError, w))"
  using resolve_raises_iff [of "input_path self" output_format]
    convert_raises [of self output_format None ValueError run w]
  by blast

theorem convert_raises_on_invalid_format_witness:
  "convert run_ok (example_converter (Path ''clip.mov'')) ''mp4/x'' None quiet =
     (Inl ValueError, quiet)
   \<and> convert run_ok (example_converter (Path ''clip.mov'')) [] None quiet =
     (Inl ValueError, quiet)"
  using convert_raises_on_invalid_format
      [of "example_converter (Path ''clip.mov'')" "''mp4/x''" run_ok quiet]
    convert_raises_on_invalid_format
      [of "example_converter (Path ''clip.mov'')" "[]" run_ok quiet]
  by simp

section \<open>The extraction loop\<close>

lemma upt_Suc_shift: "[0..<Suc n] = 0 # map Suc [0..<n]"
  by (simp add: upt_conv_Cons map_Suc_upt del: upt_Suc)

lemma extract_loop_frame:
  "extract_loop cv d k rs v w = (r, v', w') \<Longrightarrow>
     released w' = released w \<and> opened w' = opened w \<and> dirs w' = dirs w
     \<and> pbar_total w' = pbar_total w \<and> pbar_closed w' = pbar_closed w
     \<and> pbar_n w' - pbar_n w = extracted_count v' - extracted_count v"
proof (induction cv d k rs v w rule: extract_loop.induct)
  case (4 cv frame_dir frame_interval frame rest v w)
  show ?case
  proof (cases "frame_interval = 0")
    case True
    with "4.prems" show ?thesis by simp
  next
    case nz: False
    show ?thesis
    proof (cases "frame_count v mod frame_interval = 0")
      case False
      with nz "4.prems" "4.IH"(2) show ?thesis by simp
    next
      case True
      show ?thesis
      proof (cases "imwrite cv (path_str (frame_file frame_dir (frame_count v))) frame")
        case (Inl e)
        with nz True "4.prems" show ?thesis by simp
      next
        case (Inr written)
        with nz True "4.prems" "4.IH"(1)[OF nz True Inr] show ?thesis by simp
      qed
    qed
  qed
qed simp_all

lemma extract_loop_frames:
  assumes k: "k \<noteq> 0"
    and writes: "\<And>file frame. \<exists>b. imwrite cv file frame = Inr b"
  shows "fst (extract_loop cv d k (map Frame fs) v w) = Inr ()
     \<and> frame_count (fst (snd (extract_loop cv d k (map Frame fs) v w))) =
         frame_count v + int (length fs)
     \<and> extracted_count (fst (snd (extract_loop cv d k (map Frame fs) v w))) =
         extracted_count v
           + int (length (filter (\<lambda>i. (frame_count v + int i) mod k = 0) [0..<length fs]))
     \<and> files (snd (snd (extract_loop cv d k (map Frame fs) v w))) =
         files w @
           map (\<lambda>i. (path_str (frame_file d (frame_count v + int i)), fs ! i))
             (filter (\<lambda>i. (frame_count v + int i) mod k = 0
                 \<and> imwrite cv (path_str (frame_file d (frame_count v + int i))) (fs ! i) = Inr True)
               [0..<length fs])"
proof (induction fs arbitrary: v w)
  case Nil
  show ?case by simp
next
  case (Cons f fs)
  have shift: "frame_count v + int (Suc i) = frame_count v + 1 + int i" for i
    by simp
  show ?case
  proof (cases "frame_count v mod k = 0")
    case False
    with k Cons.IH[of "v\<lparr>frame_count := frame_count v + 1\<rparr>" w] show ?thesis
      by (simp add: upt_Suc_shift filter_map o_def add.assoc del: upt_Suc)
  next
    case True
    from writes obtain b where b: "imwrite cv (path_str (frame_file d (frame_count v))) f = Inr b"
      by blast
    with k True
      Cons.IH[of "v\<lparr>extracted_count := extracted_count v + 1, frame_count := frame_count v + 1\<rparr>"
         "w\<lparr>files := (if b then files w @ [(path_str (frame_file d (frame_count v)), f)]
                          else files w),
            pbar_n := pbar_n w + 1\<rparr>"]
    show ?thesis
      by (simp add: upt_Suc_shift filter_map o_def add.assoc del: upt_Suc)
  qed
qed

lemma ceil_div:
  assumes "1 \<le> (k::int)"
  shows "(m + k - 1) div k = m div k + (if m mod k = 0 then 0 else 1)"
proof -
  define q where "q = m div k"
  define r where "r = m mod k"
  have m: "m = k * q + r"
    by (simp add: q_def r_def)
  from assms have r: "0 \<le> r" "r < k"
    by (simp_all add: r_def)
  show ?thesis
  proof (cases "r = 0")
    case True
    with m have "m + k - 1 = k * q + (k - 1)" by simp
    from int_div_pos_eq [OF this] assms have "(m + k - 1) div k = q" by simp
    with True show ?thesis by (simp add: q_def r_def)
  next
    case False
    with m have "m + k - 1 = k * (q + 1) + (r - 1)" by (simp add: algebra_simps)
    from int_div_pos_eq [OF this] r False have "(m + k - 1) div k = q + 1" by simp
    with False show ?thesis by (simp add: q_def r_def)
  qed
qed

lemma count_multiples:
  assumes "1 \<le> (k::int)"
  shows "int (length (filter (\<lambda>i. int i mod k = 0) [0..<n])) = (int n + k - 1) div k"
proof (induction n)
  case 0
  from assms show ?case by simp
next
  case (Suc n)
  from assms have "k \<noteq> 0" by simp
  then have "(int n + 1 + k - 1) div k = int n div k + 1"
    by (simp add: div_add_self2)
  with Suc ceil_div [OF assms, of "int n"] show ?case by simp
qed

lemma ceil_floor:
  assumes "1 \<le> (k::int)" and "\<not> k dvd n"
  shows "(n + k - 1) div k = n div k + 1"
  using ceil_div [OF assms(1), of n] assms(2) by (simp add: mod_eq_0_iff_dvd)

section \<open>The names of the frame files\<close>

lemma digits_chars: "set (digits n) \<subseteq> set ''0123456789''"
proof (induction n rule: digits.induct)
  case (1 n)
  have "n mod 10 < length ''0123456789''" by simp
  then have m: "''0123456789'' ! (n mod 10) \<in> set ''0123456789''" by (rule nth_mem)
  show ?case
  proof (cases "n < 10")
    case True
    then have "n < length ''0123456789''" by simp
    then have "''0123456789'' ! n \<in> set ''0123456789''" by (rule nth_mem)
    with True show ?thesis by (subst digits.simps) simp
  next
    case False
    with "1.IH" m show ?thesis by (subst digits.simps) simp
  qed
qed

lemma digits_not_empty: "digits n \<noteq> []"
  by (subst digits.simps) simp

lemma str_int_no_slash: "CHR ''/'' \<notin> set (str_int i)"
  using digits_chars [of "nat i"] digits_chars [of "nat (- i)"]
  by (auto simp: str_int_def)

lemma split_on_absent: "c \<notin> set s \<Longrightarrow> split_on c s = [s]"
  by (induction s) auto

lemma Path_single:
  assumes "CHR ''/'' \<notin> set s" and "s \<noteq> []" and "s \<noteq> ''.''"
  shows "Path s = \<lparr>anchor = [], parts = [s]\<rparr>"
proof -
  from assms(1,2) have "hd s \<noteq> CHR ''/''"
    by (cases s) auto
  with assms(2) have "take 1 s \<noteq> ''/''" and "take 2 s \<noteq> ''//''"
    by (cases s; cases "tl s"; auto)+
  with assms show ?thesis
    by (simp add: Path_def split_on_absent)
qed

lemma frame_file_parts:
  "frame_file d i = d\<lparr>parts := parts d @ [str_int i @ ''.jpeg'']\<rparr>"
proof -
  have "CHR ''/'' \<notin> set (str_int i @ ''.jpeg'')"
    using str_int_no_slash by simp
  moreover have "str_int i @ ''.jpeg'' \<noteq> []" and "str_int i @ ''.jpeg'' \<noteq> ''.''"
    by (auto simp: append_eq_Cons_conv)
  ultimately have "Path (str_int i @ ''.jpeg'') = \<lparr>anchor = [], parts = [str_int i @ ''.jpeg'']\<rparr>"
    by (rule Path_single)
  then show ?thesis
    by (simp add: frame_file_def joinpath_def)
qed

lemma digit_val_nth: "d < 10 \<Longrightarrow> digit_val (''0123456789'' ! d) = d"
proof -
  assume "d < 10"
  then consider "d = 0" | "d = 1" | "d = 2" | "d = 3" | "d = 4"
    | "d = 5" | "d = 6" | "d = 7" | "d = 8" | "d = 9"
    by atomize_elim arith
  then show ?thesis
    by cases (simp_all add: digit_val_def)
qed

lemma decimal_val_digits: "decimal_val (digits n) = n"
proof (induction n rule: digits.induct)
  case (1 n)
  show ?case
  proof (cases "n < 10")
    case True
    then show ?thesis by (subst digits.simps) (simp add: decimal_val_def digit_val_nth)
  next
    case False
    with "1.IH" have "decimal_val (digits (n div 10)) = n div 10" by simp
    with False show ?thesis
      by (subst digits.simps) (simp add: decimal_val_def digit_val_nth)
  qed
qed

lemma digits_inj: "digits m = digits n \<Longrightarrow> m = n"
  by (metis decimal_val_digits)

lemma str_int_inj: "str_int (int i) = str_int (int j) \<Longrightarrow> i = j"
  by (simp add: str_int_def digits_inj)

lemma join_with_last_inj:
  "join_with sep (xs @ [a]) = join_with sep (xs @ [b]) \<Longrightarrow> a = b"
  by (induction sep xs rule: join_with.induct) simp_all

lemma frame_file_inj:
  assumes "path_str (frame_file d (int i)) = path_str (frame_file d (int j))"
  shows "i = j"
proof -
  from assms have "join_with ''/'' (parts d @ [str_int (int i) @ ''.jpeg'']) =
      join_with ''/'' (parts d @ [str_int (int j) @ ''.jpeg''])"
    by (simp add: frame_file_parts path_str_def)
  then have "str_int (int i) @ ''.jpeg'' = str_int (int j) @ ''.jpeg''"
    by (rule join_with_last_inj)
  then show ?thesis by (simp add: str_int_inj)
qed

lemma frame_files_distinct:
  "distinct (map (\<lambda>i. path_str (frame_file d (int i))) [0..<n])"
  by (auto simp: distinct_map inj_on_def dest: frame_file_inj)

section \<open>Extraction\<close>

lemma ceil_bounds:
  assumes "1 \<le> (k::int)"
  shows "k * ((n + k - 1) div k - 1) < n \<and> n \<le> k * ((n + k - 1) div k)"
proof -
  have n: "n = k * (n div k) + n mod k" by simp
  from assms have r: "0 \<le> n mod k" "n mod k < k" by simp_all
  show ?thesis
  proof (cases "n mod k = 0")
    case True
    with ceil_div [OF assms, of n] have "(n + k - 1) div k = n div k" by simp
    moreover from True n have "n = k * (n div k)" by simp
    ultimately show ?thesis using assms by (simp add: algebra_simps)
  next
    case False
    with ceil_div [OF assms, of n] have c: "(n + k - 1) div k = n div k + 1" by simp
    from False r have "0 < n mod k" by simp
    with n r have "k * (n div k) < n" and "n \<le> k * (n div k) + k"
      by linarith+
    with c show ?thesis by (simp add: algebra_simps)
  qed
qed

text \<open>The three ways \<^verbatim>\<open>extract_frames\<close> is left before or without the loop, and the way
  it is left after it.\<close>

lemma extract_frames_zero:
  "extract_frames cv self 0 w =
     (Inl ZeroDivisionError, \<lparr>frame_count = 0, extracted_count = 0\<rparr>,
      w\<lparr>opened := opened w @ [path_str (video_path self)]\<rparr>)"
  by (simp add: extract_frames_def)

lemma extract_frames_mkdir_raises:
  assumes "k \<noteq> 0"
    and "mkdir cv (path_str (frame_dir_of self (fps_text (VideoCapture cv (path_str (video_path self)))))) = Some e"
  shows "extract_frames cv self k w =
     (Inl e, \<lparr>frame_count = 0, extracted_count = 0\<rparr>,
      w\<lparr>opened := opened w @ [path_str (video_path self)]\<rparr>)"
  using assms by (simp add: extract_frames_def Let_def)

lemma extract_frames_not_opened:
  assumes "k \<noteq> 0"
    and "mkdir cv (path_str (frame_dir_of self (fps_text (VideoCapture cv (path_str (video_path self)))))) = None"
    and "\<not> is_opened (VideoCapture cv (path_str (video_path self)))"
  shows "extract_frames cv self k w =
     (Inr PyNone, \<lparr>frame_count = 0, extracted_count = 0\<rparr>,
      w\<lparr>opened := opened w @ [path_str (video_path self)],
        dirs := dirs w @ [path_str (frame_dir_of self (fps_text (VideoCapture cv (path_str (video_path self)))))],
        pbar_total := Some (total_frames (VideoCapture cv (path_str (video_path self))) div k),
        pbar_n := 0, pbar_closed := True, released := released w + 1\<rparr>)"
  using assms by (simp add: extract_frames_def Let_def)

lemma extract_frames_loop:
  assumes "k \<noteq> 0"
    and "mkdir cv (path_str (frame_dir_of self (fps_text (VideoCapture cv (path_str (video_path self)))))) = None"
    and "is_opened (VideoCapture cv (path_str (video_path self)))"
    and "extract_loop cv (frame_dir_of self (fps_text (VideoCapture cv (path_str (video_path self))))) k
           (reads (VideoCapture cv (path_str (video_path self))))
           \<lparr>frame_count = 0, extracted_count = 0\<rparr>
           (w\<lparr>opened := opened w @ [path_str (video_path self)],
              dirs := dirs w @ [path_str (frame_dir_of self (fps_text (VideoCapture cv (path_str (video_path self)))))],
              pbar_total := Some (total_frames (VideoCapture cv (path_str (video_path self))) div k),
              pbar_n := 0, pbar_closed := False\<rparr>) = (r, v1, w3)"
  shows "extract_frames cv self k w =
     (case r of
        Inl e \<Rightarrow> (Inl e, v1, w3)
      | Inr u \<Rightarrow> (Inr PyNone, v1, w3\<lparr>released := released w3 + 1, pbar_closed := True\<rparr>))"
  using assms by (simp add: extract_frames_def Let_def split: sum.splits)

text \<open>What every run of \<^verbatim>\<open>extract_frames\<close> leaves: the source is opened once; the run ends
  with \<^verbatim>\<open>None\<close> and one release more, or with an exception and no release; the progress bar
  counts what the loop counted.\<close>

lemma extract_frames_outcome:
  assumes "extract_frames cv self k w = (r, v', w')"
  shows "opened w' = opened w @ [path_str (video_path self)]
     \<and> (r = Inr PyNone \<and> released w' = released w + 1 \<and> pbar_closed w'
          \<and> pbar_n w' = extracted_count v'
          \<and> dirs w' = dirs w @ [path_str (frame_dir_of self
                 (fps_text (VideoCapture cv (path_str (video_path self)))))]
        \<or> isl r \<and> released w' = released w)"
proof (cases "k = 0")
  case True
  with assms show ?thesis by (auto simp: extract_frames_zero)
next
  case nz: False
  show ?thesis
  proof (cases "mkdir cv (path_str (frame_dir_of self (fps_text (VideoCapture cv (path_str (video_path self))))))")
    case (Some e)
    from assms show ?thesis by (auto simp: extract_frames_mkdir_raises [OF nz Some])
  next
    case None
    show ?thesis
    proof (cases "is_opened (VideoCapture cv (path_str (video_path self)))")
      case False
      from assms show ?thesis by (auto simp: extract_frames_not_opened [OF nz None False])
    next
      case True
      obtain r0 v1 w3 where
        loop: "extract_loop cv (frame_dir_of self (fps_text (VideoCapture cv (path_str (video_path self))))) k
           (reads (VideoCapture cv (path_str (video_path self))))
           \<lparr>frame_count = 0, extracted_count = 0\<rparr>
           (w\<lparr>opened := opened w @ [path_str (video_path self)],
              dirs := dirs w @ [path_str (frame_dir_of self (fps_text (VideoCapture cv (path_str (video_path self)))))],
              pbar_total := Some (total_frames (VideoCapture cv (path_str (video_path self))) div k),
              pbar_n := 0, pbar_closed := False\<rparr>) = (r0, v1, w3)"
        by (metis prod_cases3)
      from extract_loop_frame [OF loop] extract_frames_loop [OF nz None True loop] assms
      show ?thesis by (cases r0) auto
    qed
  qed
qed

text \<open>A run on an opened source that delivers the frames \<open>frames\<close> and then no more, when
  no write raises.\<close>

lemma extract_frames_on_frames:
  assumes k: "k \<noteq> 0"
    and dir: "mkdir cv (path_str (frame_dir_of self (fps_text (VideoCapture cv (path_str (video_path self)))))) = None"
    and op: "is_opened (VideoCapture cv (path_str (video_path self)))"
    and rd: "reads (VideoCapture cv (path_str (video_path self))) = map Frame frames"
    and wr: "\<And>file frame. \<exists>b. imwrite cv file frame = Inr b"
    and run: "extract_frames cv self k w = (r, v', w')"
  shows "r = Inr PyNone
     \<and> frame_count v' = int (length frames)
     \<and> extracted_count v' = int (length (filter (\<lambda>i. int i mod k = 0) [0..<length frames]))
     \<and> pbar_total w' = Some (total_frames (VideoCapture cv (path_str (video_path self))) div k)
     \<and> files w' = files w @
         map (\<lambda>i. (path_str (frame_file (frame_dir_of self
                      (fps_text (VideoCapture cv (path_str (video_path self))))) (int i)),
                    frames ! i))
           (filter (\<lambda>i. int i mod k = 0
               \<and> imwrite cv (path_str (frame_file (frame_dir_of self
                      (fps_text (VideoCapture cv (path_str (video_path self))))) (int i)))
                   (frames ! i) = Inr True)
             [0..<length frames])"
proof -
  define d where "d = frame_dir_of self (fps_text (VideoCapture cv (path_str (video_path self))))"
  define v0 where "v0 = \<lparr>frame_count = 0, extracted_count = 0\<rparr>"
  define w2 where "w2 = w\<lparr>opened := opened w @ [path_str (video_path self)],
          dirs := dirs w @ [path_str d],
          pbar_total := Some (total_frames (VideoCapture cv (path_str (video_path self))) div k),
          pbar_n := 0, pbar_closed := False\<rparr>"
  obtain r0 v1 w3 where loop: "extract_loop cv d k (map Frame frames) v0 w2 = (r0, v1, w3)"
    by (rule prod_cases3)
  have v0: "frame_count v0 = 0" "extracted_count v0 = 0"
    by (simp_all add: v0_def)
  have w2: "files w2 = files w"
    by (simp add: w2_def)
  from extract_loop_frames [OF k wr, of d frames v0 w2]
  have r0: "r0 = Inr ()"
    and fc: "frame_count v1 = int (length frames)"
    and ec: "extracted_count v1 = int (length (filter (\<lambda>i. int i mod k = 0) [0..<length frames]))"
    and fs: "files w3 = files w @
         map (\<lambda>i. (path_str (frame_file d (int i)), frames ! i))
           (filter (\<lambda>i. int i mod k = 0
               \<and> imwrite cv (path_str (frame_file d (int i))) (frames ! i) = Inr True)
             [0..<length frames])"
    by (simp_all add: loop v0 w2)
  from extract_loop_frame [OF loop] have total: "pbar_total w3 =
      Some (total_frames (VideoCapture cv (path_str (video_path self))) div k)"
    by (simp add: w2_def)
  from loop have "extract_loop cv (frame_dir_of self (fps_text (VideoCapture cv (path_str (video_path self))))) k
       (reads (VideoCapture cv (path_str (video_path self))))
       \<lparr>frame_count = 0, extracted_count = 0\<rparr>
       (w\<lparr>opened := opened w @ [path_str (video_path self)],
          dirs := dirs w @ [path_str (frame_dir_of self (fps_text (VideoCapture cv (path_str (video_path self)))))],
          pbar_total := Some (total_frames (VideoCapture cv (path_str (video_path self))) div k),
          pbar_n := 0, pbar_closed := False\<rparr>) = (r0, v1, w3)"
    by (simp add: d_def v0_def w2_def rd)
  from extract_frames_loop [OF k dir op this] run r0
  have "r = Inr PyNone" and "v' = v1"
    and "w' = w3\<lparr>released := released w3 + 1, pbar_closed := True\<rparr>"
    by simp_all
  with fc ec fs total show ?thesis
    by (simp add: d_def)
qed

text \<open>The run on the ten frames: the facts about the example that the instances below use.\<close>

lemma ten_frame_video:
  "VideoCapture ten_frame_cv file =
     \<lparr>is_opened = True, fps_text = ''30.0'', total_frames = 10, reads = map Frame ten_frames\<rparr>"
  by (simp add: ten_frame_cv_def)

lemma ten_frame_dir: "frame_dir_of clip_extractor ''30.0'' = Path ''frames_clip_30.0''"
  by (simp add: frame_dir_of_def clip_extractor_def clip_mp4 stem_def name_def rfind_def)

lemma ten_frame_dir_parts:
  "Path ''frames_clip_30.0'' = \<lparr>anchor = [], parts = [''frames_clip_30.0'']\<rparr>"
  by (rule Path_single) simp_all

lemma ten_frame_selected:
  "filter (\<lambda>i. int i mod 3 = 0) [0..<length ten_frames] = [0, 3, 6, 9]"
  by (simp add: ten_frames_def upt_rec)

lemma ten_frame_dir_str: "path_str (Path ''frames_clip_30.0'') = ''frames_clip_30.0''"
  by (simp add: ten_frame_dir_parts path_str_def)

lemma ten_frame_names:
  "path_str (frame_file (Path ''frames_clip_30.0'') 0) = ''frames_clip_30.0/0.jpeg''"
  "path_str (frame_file (Path ''frames_clip_30.0'') 3) = ''frames_clip_30.0/3.jpeg''"
  "path_str (frame_file (Path ''frames_clip_30.0'') 6) = ''frames_clip_30.0/6.jpeg''"
  "path_str (frame_file (Path ''frames_clip_30.0'') 9) = ''frames_clip_30.0/9.jpeg''"
  by (simp_all add: frame_file_parts ten_frame_dir_parts path_str_def str_int_def digits.simps)

lemma ten_frame_run_split:
  "extract_frames ten_frame_cv clip_extractor 3 fresh =
     (fst ten_frame_run, fst (snd ten_frame_run), snd (snd ten_frame_run))"
  by (simp add: ten_frame_run_def)

lemma ten_frame_run_normal: "fst ten_frame_run = Inr PyNone"
proof -
  have "\<exists>b. imwrite ten_frame_cv f img = Inr b" for f img
    by (auto simp: ten_frame_cv_def)
  from extract_frames_on_frames [OF _ _ _ _ this ten_frame_run_split, of ten_frames]
  show ?thesis
    by (simp add: ten_frame_cv_def)
qed

text \<open>
  C3. With a stride of at least one, on an opened source that delivers the frames
  \<open>frames\<close> and then no more, and when every write and the creation of the directory
  succeed, \<^verbatim>\<open>extract_frames\<close> ends normally and has written exactly the frames whose index
  \<open>i\<close>, counted from zero, has \<open>i mod k = 0\<close>, in that order, frame \<open>i\<close> to the file
  \<^verbatim>\<open>i.jpeg\<close> of the directory it created, and has counted them. The names of the files
  of different indices differ, so no written frame is overwritten by a later one.
\<close>

theorem extract_frames_writes_every_kth_frame:
  assumes "1 \<le> k"
    and "video = VideoCapture cv (path_str (video_path self))"
    and "is_opened video"
    and "reads video = map Frame frames"
    and "frame_dir = frame_dir_of self (fps_text video)"
    and "mkdir cv (path_str frame_dir) = None"
    and "\<forall>file frame. imwrite cv file frame = Inr True"
    and "extract_frames cv self k w = (r, v', w')"
  shows "r = Inr PyNone
     \<and> dirs w' = dirs w @ [path_str frame_dir]
     \<and> files w' = files w @
         map (\<lambda>i. (path_str (frame_file frame_dir (int i)), frames ! i))
           (filter (\<lambda>i. int i mod k = 0) [0..<length frames])
     \<and> extracted_count v' = int (length (filter (\<lambda>i. int i mod k = 0) [0..<length frames]))
     \<and> frame_count v' = int (length frames)
     \<and> (\<forall>i. frame_file frame_dir (int i) =
              frame_dir\<lparr>parts := parts frame_dir @ [str_int (int i) @ ''.jpeg'']\<rparr>)
     \<and> distinct (map (\<lambda>i. path_str (frame_file frame_dir (int i))) [0..<length frames])"
proof -
  from assms(1) have k: "k \<noteq> 0" by simp
  from assms(7) have wr: "\<exists>b. imwrite cv f img = Inr b" for f img by blast
  from extract_frames_on_frames [OF k assms(6)[unfolded assms(5) assms(2)]
      assms(3)[unfolded assms(2)] assms(4)[unfolded assms(2)] wr assms(8)]
  have "r = Inr PyNone"
    and "files w' = files w @
         map (\<lambda>i. (path_str (frame_file frame_dir (int i)), frames ! i))
           (filter (\<lambda>i. int i mod k = 0) [0..<length frames])"
    and "extracted_count v' = int (length (filter (\<lambda>i. int i mod k = 0) [0..<length frames]))"
    and "frame_count v' = int (length frames)"
    by (simp_all add: assms(7) assms(5) assms(2))
  moreover from extract_frames_outcome [OF assms(8)] \<open>r = Inr PyNone\<close>
  have "dirs w' = dirs w @ [path_str frame_dir]"
    by (simp add: assms(5) assms(2))
  ultimately show ?thesis
    using frame_files_distinct [of frame_dir "length frames"]
    by (simp add: frame_file_parts)
qed

theorem extract_frames_writes_every_kth_frame_witness:
  "fst ten_frame_run = Inr PyNone
   \<and> dirs (snd (snd ten_frame_run)) = [''frames_clip_30.0'']
   \<and> files (snd (snd ten_frame_run)) =
       [(''frames_clip_30.0/0.jpeg'', 100), (''frames_clip_30.0/3.jpeg'', 103),
        (''frames_clip_30.0/6.jpeg'', 106), (''frames_clip_30.0/9.jpeg'', 109)]
   \<and> extracted_count (fst (snd ten_frame_run)) = 4
   \<and> frame_count (fst (snd ten_frame_run)) = 10"
proof -
  have k: "(1::int) \<le> 3" by simp
  have op: "is_opened (VideoCapture ten_frame_cv (path_str (video_path clip_extractor)))"
    and rd: "reads (VideoCapture ten_frame_cv (path_str (video_path clip_extractor))) =
      map Frame ten_frames"
    by (simp_all add: ten_frame_video)
  have dir: "Path ''frames_clip_30.0'' = frame_dir_of clip_extractor
      (fps_text (VideoCapture ten_frame_cv (path_str (video_path clip_extractor))))"
    by (simp add: ten_frame_video ten_frame_dir)
  have mk: "mkdir ten_frame_cv (path_str (Path ''frames_clip_30.0'')) = None"
    and wr: "\<forall>file frame. imwrite ten_frame_cv file frame = Inr True"
    by (simp_all add: ten_frame_cv_def)
  from extract_frames_writes_every_kth_frame [OF k refl op rd dir mk wr ten_frame_run_split]
  show ?thesis
    by (simp add: ten_frame_selected ten_frame_names ten_frame_dir_str fresh_def ten_frames_def)
qed

text \<open>
  C4, as amended. \<^verbatim>\<open>extract_frames\<close> has no \<^verbatim>\<open>return\<close> statement: when it ends normally its
  value is \<^verbatim>\<open>None\<close>. The number of frames extracted is then the count of the closed progress
  bar, and the directory of the images is the one the call created; neither is returned.
\<close>

theorem extract_frames_returns_None:
  assumes "extract_frames cv self k w = (Inr r, v', w')"
  shows "r = PyNone
     \<and> pbar_n w' = extracted_count v'
     \<and> pbar_closed w'
     \<and> dirs w' = dirs w @
         [path_str (frame_dir_of self (fps_text (VideoCapture cv (path_str (video_path self)))))]"
  using extract_frames_outcome [OF assms] by simp

theorem extract_frames_returns_None_witness:
  "extract_frames ten_frame_cv clip_extractor 3 fresh =
     (Inr PyNone, fst (snd ten_frame_run), snd (snd ten_frame_run))
   \<and> pbar_n (snd (snd ten_frame_run)) = extracted_count (fst (snd ten_frame_run))
   \<and> pbar_closed (snd (snd ten_frame_run))
   \<and> dirs (snd (snd ten_frame_run)) = [''frames_clip_30.0'']"
proof -
  have run: "extract_frames ten_frame_cv clip_extractor 3 fresh =
     (Inr PyNone, fst (snd ten_frame_run), snd (snd ten_frame_run))"
    using ten_frame_run_split ten_frame_run_normal by simp
  from extract_frames_returns_None [OF run] run show ?thesis
    by (simp add: ten_frame_video ten_frame_dir ten_frame_dir_str fresh_def)
qed

text \<open>
  C4 as stated fails: the run on the ten frames with stride three ends normally, and what
  it returns is \<^verbatim>\<open>None\<close>, not a record of counts and directory.
\<close>

theorem extract_frames_summary_counterexample:
  "fst (extract_frames ten_frame_cv clip_extractor 3 fresh) = Inr PyNone"
  using ten_frame_run_normal by (simp add: ten_frame_run_def)

text \<open>
  C7, as amended. Every run of \<^verbatim>\<open>extract_frames\<close> opens the source once. A run that ends
  normally has released it exactly once; a run that is left by an exception has not
  released it.
\<close>

theorem extract_frames_releases_on_normal_return:
  assumes "extract_frames cv self k w = (r, v', w')"
  shows "opened w' = opened w @ [path_str (video_path self)]
     \<and> (r = Inr PyNone \<and> released w' = released w + 1 \<or> isl r \<and> released w' = released w)"
  using extract_frames_outcome [OF assms] by blast

theorem extract_frames_releases_on_normal_return_witness:
  "fst ten_frame_run = Inr PyNone
   \<and> opened (snd (snd ten_frame_run)) = [''clip.mp4'']
   \<and> released (snd (snd ten_frame_run)) = 1"
  using extract_frames_releases_on_normal_return [OF ten_frame_run_split] ten_frame_run_normal
  by (simp add: fresh_def clip_extractor_def clip_mp4 path_str_def)

text \<open>
  C7 as stated fails: with a stride of zero the division of line 22 raises after the source
  was opened; a write that raises and a read that raises leave the loop by the exception.
  In all three runs the source was opened and \<^verbatim>\<open>release()\<close> was not called.
\<close>

theorem extract_frames_release_counterexample:
  "extract_frames ten_frame_cv clip_extractor 0 fresh =
     (Inl ZeroDivisionError, \<lparr>frame_count = 0, extracted_count = 0\<rparr>,
      fresh\<lparr>opened := [''clip.mp4'']\<rparr>)
   \<and> released (fresh\<lparr>opened := [''clip.mp4'']\<rparr>) = 0
   \<and> fst (extract_frames
         (ten_frame_cv\<lparr>imwrite := \<lambda>file frame. Inl (Cv2Error ''write failed'')\<rparr>)
         clip_extractor 1 fresh) = Inl (Cv2Error ''write failed'')
   \<and> opened (snd (snd (extract_frames
         (ten_frame_cv\<lparr>imwrite := \<lambda>file frame. Inl (Cv2Error ''write failed'')\<rparr>)
         clip_extractor 1 fresh))) = [''clip.mp4'']
   \<and> released (snd (snd (extract_frames
         (ten_frame_cv\<lparr>imwrite := \<lambda>file frame. Inl (Cv2Error ''write failed'')\<rparr>)
         clip_extractor 1 fresh))) = 0
   \<and> fst (extract_frames
         (ten_frame_cv\<lparr>VideoCapture := \<lambda>file.
            \<lparr>is_opened = True, fps_text = ''30.0'', total_frames = 10,
             reads = [Frame 100, ReadRaises ''decode failed'']\<rparr>\<rparr>)
         clip_extractor 1 fresh) = Inl (Cv2Error ''decode failed'')
   \<and> released (snd (snd (extract_frames
         (ten_frame_cv\<lparr>VideoCapture := \<lambda>file.
            \<lparr>is_opened = True, fps_text = ''30.0'', total_frames = 10,
             reads = [Frame 100, ReadRaises ''decode failed'']\<rparr>\<rparr>)
         clip_extractor 1 fresh))) = 0"
  by (simp add: extract_frames_def ten_frame_cv_def ten_frames_def fresh_def Let_def
      clip_extractor_def clip_mp4 path_str_def)

text \<open>
  C10. With a stride \<open>k\<close> of at least one, on an opened source that reports \<open>n\<close> frames and
  delivers \<open>n\<close> frames, when every write and the creation of the directory succeed, the
  total given to the progress bar is \<open>n div k\<close>, the floor of \<open>n / k\<close>. The frames written
  are those of the indices \<open>i\<close> with \<open>i mod k = 0\<close>, and the number of files written, which
  is also the final \<^verbatim>\<open>extracted_count\<close> and the count of the progress bar, is
  \<open>(n + k - 1) div k\<close>, the ceiling of \<open>n / k\<close>: the least \<open>q\<close> with \<open>n \<le> k * q\<close>. When \<open>k\<close>
  does not divide \<open>n\<close>, it is the estimate plus one.
\<close>

theorem extract_frames_estimate_and_count:
  assumes "1 \<le> k"
    and "video = VideoCapture cv (path_str (video_path self))"
    and "is_opened video"
    and "reads video = map Frame frames"
    and "n = int (length frames)"
    and "total_frames video = n"
    and "mkdir cv (path_str (frame_dir_of self (fps_text video))) = None"
    and "\<forall>file frame. imwrite cv file frame = Inr True"
    and "extract_frames cv self k w = (r, v', w')"
  shows "r = Inr PyNone
     \<and> pbar_total w' = Some (n div k)
     \<and> files w' = files w @
         map (\<lambda>i. (path_str (frame_file (frame_dir_of self (fps_text video)) (int i)), frames ! i))
           (filter (\<lambda>i. int i mod k = 0) [0..<length frames])
     \<and> int (length (files w')) = int (length (files w)) + (n + k - 1) div k
     \<and> extracted_count v' = (n + k - 1) div k
     \<and> pbar_n w' = extracted_count v'
     \<and> k * ((n + k - 1) div k - 1) < n \<and> n \<le> k * ((n + k - 1) div k)
     \<and> (\<not> k dvd n \<longrightarrow>
          int (length (files w')) = int (length (files w)) + (n div k + 1)
          \<and> extracted_count v' = n div k + 1)"
proof -
  from assms(1) have k: "k \<noteq> 0" by simp
  from assms(8) have wr: "\<exists>b. imwrite cv f img = Inr b" for f img by blast
  from extract_frames_on_frames [OF k assms(7)[unfolded assms(2)]
      assms(3)[unfolded assms(2)] assms(4)[unfolded assms(2)] wr assms(9)]
  have r: "r = Inr PyNone"
    and total: "pbar_total w' = Some (n div k)"
    and count: "extracted_count v' =
      int (length (filter (\<lambda>i. int i mod k = 0) [0..<length frames]))"
    and fs: "files w' = files w @
         map (\<lambda>i. (path_str (frame_file (frame_dir_of self (fps_text video)) (int i)), frames ! i))
           (filter (\<lambda>i. int i mod k = 0) [0..<length frames])"
    using assms(6) by (simp_all add: assms(8) assms(2))
  from count have ec: "extracted_count v' = (n + k - 1) div k"
    by (simp add: count_multiples [OF assms(1)] assms(5))
  from fs have "int (length (files w')) =
      int (length (files w)) + int (length (filter (\<lambda>i. int i mod k = 0) [0..<length frames]))"
    by simp
  then have len: "int (length (files w')) = int (length (files w)) + (n + k - 1) div k"
    by (simp add: count_multiples [OF assms(1)] assms(5))
  from extract_frames_outcome [OF assms(9)] r have bar: "pbar_n w' = extracted_count v'"
    by simp
  from ceil_floor [OF assms(1), of n]
  have more: "\<not> k dvd n \<longrightarrow> (n + k - 1) div k = n div k + 1"
    by blast
  from r total fs len ec bar ceil_bounds [OF assms(1), of n] more
  show ?thesis by simp
qed

theorem extract_frames_estimate_and_count_witness:
  "fst ten_frame_run = Inr PyNone
   \<and> pbar_total (snd (snd ten_frame_run)) = Some 3
   \<and> length (files (snd (snd ten_frame_run))) = 4
   \<and> extracted_count (fst (snd ten_frame_run)) = 4
   \<and> pbar_n (snd (snd ten_frame_run)) = 4"
proof -
  have k: "(1::int) \<le> 3" by simp
  have op: "is_opened (VideoCapture ten_frame_cv (path_str (video_path clip_extractor)))"
    and rd: "reads (VideoCapture ten_frame_cv (path_str (video_path clip_extractor))) =
      map Frame ten_frames"
    and n: "total_frames (VideoCapture ten_frame_cv (path_str (video_path clip_extractor))) = 10"
    by (simp_all add: ten_frame_video)
  have len: "(10::int) = int (length ten_frames)"
    by (simp add: ten_frames_def)
  have mk: "mkdir ten_frame_cv (path_str (frame_dir_of clip_extractor
      (fps_text (VideoCapture ten_frame_cv (path_str (video_path clip_extractor)))))) = None"
    by (simp add: ten_frame_cv_def)
  have wr: "\<forall>file frame. imwrite ten_frame_cv file frame = Inr True"
    by (simp add: ten_frame_cv_def)
  note run = extract_frames_estimate_and_count
    [OF k refl op rd len n mk wr ten_frame_run_split]
  from run [THEN conjunct1] have normal: "fst ten_frame_run = Inr PyNone" .
  from run [THEN conjunct2, THEN conjunct1]
  have total: "pbar_total (snd (snd ten_frame_run)) = Some 3"
    by simp
  from run [THEN conjunct2, THEN conjunct2, THEN conjunct2, THEN conjunct1]
  have written: "length (files (snd (snd ten_frame_run))) = 4"
    by (simp add: fresh_def)
  from run [THEN conjunct2, THEN conjunct2, THEN conjunct2, THEN conjunct2, THEN conjunct1]
  have counted: "extracted_count (fst (snd ten_frame_run)) = 4"
    by simp
  from run [THEN conjunct2, THEN conjunct2, THEN conjunct2, THEN conjunct2, THEN conjunct2,
      THEN conjunct1] counted
  have "pbar_n (snd (snd ten_frame_run)) = 4"
    by simp
  with normal total written counted show ?thesis by blast
qed

end
